theory Spec2Isabelle
  imports Main "HOL-Library.Word" "HOL-Library.Sublist"
begin

section \<open>The module-interface build cache of lib/Frontend/ParseableInterfaceSupport.cpp\<close>

text \<open>
  A shallow embedding of the loader half of \<^verbatim>\<open>ParseableInterfaceSupport.cpp\<close>: the
  up-to-date check of a cached \<^verbatim>\<open>.swiftmodule\<close>, the collection of the dependency
  list that is serialized into a rebuilt module, the rebuild itself and the entry point
  \<^verbatim>\<open>ParseableInterfaceModuleLoader::openModuleFiles\<close>.

  Everything the file calls but does not define (the virtual file system, xxHash64,
  \<^verbatim>\<open>validateSerializedAST\<close>, the compiler instance, the argument parser, the LLVM path
  and hashing helpers) is a parameter: a field of the records \<open>FileSystem\<close> and
  \<open>Externals\<close>. The theorems hold for every value of these parameters.
\<close>

subsection \<open>Data\<close>

type_synonym MemoryBuffer = string
type_synonym SourceLoc = nat
type_synonym Identifier = string

text \<open>\<^verbatim>\<open>SourceLoc()\<close>, the location that points nowhere.\<close>

definition noSourceLoc :: SourceLoc where
  "noSourceLoc = 0"

text \<open>The \<^verbatim>\<open>std::errc\<close> values that occur as results of file system calls and of the loader.\<close>

datatype errc =
    no_such_file_or_directory
  | not_supported
  | invalid_argument
  | permission_denied
  | is_a_directory
  | io_error

text \<open>
  The state behind \<^verbatim>\<open>clang::vfs::FileSystem &FS\<close>: \<^verbatim>\<open>getBufferForFile\<close> yields the
  content of a file or an error code, \<^verbatim>\<open>exists\<close> is a separate query. \<open>getSTDIN\<close> is
  the buffer that \<^verbatim>\<open>swift::vfs::getFileOrSTDIN\<close> reads for the path \<^verbatim>\<open>-\<close>.
\<close>

record FileSystem =
  getBufferForFile :: "string \<Rightarrow> errc + MemoryBuffer"
  exists :: "string \<Rightarrow> bool"
  getSTDIN :: "errc + MemoryBuffer"

text \<open>\<^verbatim>\<open>SerializationOptions::FileDependency\<close>, built as \<^verbatim>\<open>FileDependency{Size, Hash, DepName}\<close>.\<close>

record FileDependency =
  Size :: "64 word"
  Hash :: "64 word"
  Path :: string

text \<open>\<^verbatim>\<open>serialization::Status\<close> and the fields of \<^verbatim>\<open>serialization::ValidationInfo\<close> read here.\<close>

datatype Status =
    Valid
  | FormatTooOld
  | FormatTooNew
  | MissingDependency
  | MissingShadowedModule
  | CircularDependency
  | FailedToLoadBridgingHeader
  | Malformed
  | MalformedDocumentation
  | NameMismatch
  | TargetIncompatible
  | TargetTooNew

record ValidationInfo =
  name :: string
  status :: Status

text \<open>\<^verbatim>\<open>swift::version::Version\<close>: the list of its components.\<close>

type_synonym Version = "nat list"

text \<open>\<^verbatim>\<open>file_types::ID\<close>: the two types this file names, and the others.\<close>

datatype file_type =
    TY_SwiftModuleFile
  | TY_SwiftParseableInterfaceFile
  | TY_Other nat
  | TY_INVALID

datatype ModuleLoadingMode = PreferParseable | PreferSerialized | OnlySerialized

datatype OptimizationMode = NotSet | NoOptimization | ForSpeed | ForSize

datatype InputFileKind = KindNone | Swift | SwiftLibrary | SwiftREPL | SwiftModuleInterface | SIL | LLVM

datatype ActionType = NoneAction | EmitModuleOnly | OtherAction nat

text \<open>
  The diagnostics this file emits, with their arguments. Each of them is declared as an
  error in the diagnostics tables. \<open>external_diagnostic\<close> stands for a diagnostic that a
  callee emits into the host's engine (the version parser, the argument parser, the
  sub-compilation through its \<^verbatim>\<open>ForwardingDiagnosticConsumer\<close>); its flag says whether
  it is an error.
\<close>

datatype diag =
    error_open_input_file string errc
  | error_extracting_version_from_parseable_interface
  | error_extracting_flags_from_parseable_interface
  | missing_dependency_of_parseable_module_interface string string errc
  | error_extracting_dependencies_from_cached_module string
  | unsupported_version_of_parseable_interface string Version
  | serialization_name_mismatch string string
  | serialization_name_mismatch_repl string string
  | external_diagnostic bool string

record DiagnosticEngine =
  diagnosed :: "(SourceLoc \<times> diag) list"
  hadAnyError :: bool

definition diagnose :: "DiagnosticEngine \<Rightarrow> SourceLoc \<Rightarrow> diag \<Rightarrow> DiagnosticEngine" where
  "diagnose Diags Loc d =
     Diags\<lparr>diagnosed := diagnosed Diags @ [(Loc, d)],
           hadAnyError := (case d of external_diagnostic is_err _ \<Rightarrow> hadAnyError Diags \<or> is_err
                                    | _ \<Rightarrow> True)\<rparr>"

text \<open>
  \<^verbatim>\<open>DependencyTracker\<close>: the sequence of \<^verbatim>\<open>addDependency(Path, IsSystem)\<close> calls it
  received. The pointer \<^verbatim>\<open>OuterTracker\<close> may be null: \<open>None\<close>.
\<close>

type_synonym DependencyTracker = "(string \<times> bool) list"

definition addDependency :: "DependencyTracker \<Rightarrow> string \<Rightarrow> bool \<Rightarrow> DependencyTracker" where
  "addDependency T p IsSystem = T @ [(p, IsSystem)]"

text \<open>
  The calls with an effect outside this file, in the order they are made: the directory
  created, the steps of the sub-compilation, the module serialized with its dependency
  list, and the hand-over to the loader of serialized modules.
\<close>

datatype Effect =
    create_directory string
  | CompilerInvocation_parseArgs "string list"
  | CompilerInstance_setup
  | performSema
  | performSILGeneration
  | performSILProcessing
  | serialize string "FileDependency list"
  | SerializedModuleLoaderBase_openModuleFiles string string

text \<open>
  What a call can change outside its return value: the file system, the host's
  diagnostic engine, the outer dependency tracker, and the log of the calls above.
\<close>

record World =
  fs :: FileSystem
  diags :: DiagnosticEngine
  tracker :: "DependencyTracker option"
  effects :: "Effect list"

text \<open>
  An \<^verbatim>\<open>assert\<close> is compiled out under \<^verbatim>\<open>NDEBUG\<close> and aborts the process otherwise.
\<close>

datatype 'a Exec = AssertionFailure | Returns 'a

text \<open>The fields of \<^verbatim>\<open>ASTContext\<close> and \<^verbatim>\<open>CompilerInvocation\<close> that this file reads or sets.\<close>

record ASTContext =
  ImportSearchPaths :: "string list"
  FrameworkSearchPaths :: "string list"
  SDKPath :: string
  RuntimeResourcePath :: string
  Target :: string
  DebuggerSupport :: bool
  EffectiveLanguageVersion :: Version

record CompilerInvocation =
  inv_ImportSearchPaths :: "string list"
  inv_FrameworkSearchPaths :: "string list"
  inv_SDKPath :: string
  inv_InputKind :: InputFileKind
  inv_RuntimeResourcePath :: string
  inv_TargetTriple :: string
  inv_ClangModuleCachePath :: string
  inv_ModuleName :: string
  inv_SuppressWarnings :: bool
  inv_DebuggerSupport :: bool
  inv_EnableObjCAttrRequiresFoundation :: bool
  inv_RequestedAction :: ActionType
  inv_EnableParseableModuleInterface :: bool
  inv_Inputs :: "string list"
  inv_ModuleOutputPath :: string
  inv_MainOutput :: string
  inv_ModuleLinkName :: string
  inv_OptMode :: OptimizationMode

text \<open>
  What a step of the sub-compilation reports: whether it terminated abnormally, whether
  it failed, the diagnostics it emitted, and the file system it leaves behind.
\<close>

record StepResult =
  crashed :: bool
  failed :: bool
  emitted :: "(bool \<times> string) list"
  fs_after :: FileSystem

text \<open>What \<^verbatim>\<open>SerializedModuleLoaderBase::openModuleFiles\<close> hands back.\<close>

record LoadResult =
  ErrorCode :: "errc option"
  ModuleBuffer :: "MemoryBuffer option"
  ModuleDocBuffer :: "MemoryBuffer option"

text \<open>
  The parameters: what the file calls and does not define. \<open>Version_parse\<close> is the
  constructor of a version from a string, with the diagnostics it emits. \<open>SubInstance_performSILProcessing\<close>
  receives the output path and the dependency list of the serialization action installed
  before it runs, and says in its first component whether it ran that action.
\<close>

record Externals =
  NDEBUG :: bool
  xxHash64 :: "MemoryBuffer \<Rightarrow> 64 word"
  validateSerializedAST :: "MemoryBuffer \<Rightarrow> ValidationInfo \<times> FileDependency list"
  path_extension :: "string \<Rightarrow> string"
  path_append :: "string \<Rightarrow> string \<Rightarrow> string"
  path_replace_extension :: "string \<Rightarrow> string \<Rightarrow> string"
  path_filename :: "string \<Rightarrow> string"
  lookupTypeForExtension :: "string \<Rightarrow> file_type"
  getExtension :: "file_type \<Rightarrow> string"
  Version_parse :: "string \<Rightarrow> Version \<times> (bool \<times> string) list"
  TokenizeGNUCommandLine :: "string \<Rightarrow> string list"
  getSwiftFullVersion :: "Version \<Rightarrow> string"
  hash_value :: "string \<Rightarrow> 64 word"
  hash_combine :: "64 word \<Rightarrow> string \<Rightarrow> 64 word"
  getPCHHashComponents :: "CompilerInvocation \<Rightarrow> string"
  APInt_toString :: "64 word \<Rightarrow> nat \<Rightarrow> string"
  CompilerInvocation_init :: CompilerInvocation
  sys_create_directory :: "string \<Rightarrow> FileSystem \<Rightarrow> FileSystem"
  parseArgs :: "string list \<Rightarrow> CompilerInvocation \<Rightarrow> FileSystem \<Rightarrow> CompilerInvocation \<times> StepResult"
  SubInstance_setup :: "CompilerInvocation \<Rightarrow> FileSystem \<Rightarrow> StepResult"
  SubInstance_performSema :: "CompilerInvocation \<Rightarrow> FileSystem \<Rightarrow> StepResult"
  SubInstance_performSILGeneration :: "CompilerInvocation \<Rightarrow> FileSystem \<Rightarrow> StepResult"
  SubInstance_getDependencies :: "CompilerInvocation \<Rightarrow> FileSystem \<Rightarrow> string list"
  SubInstance_performSILProcessing ::
    "CompilerInvocation \<Rightarrow> string \<Rightarrow> FileDependency list \<Rightarrow> FileSystem \<Rightarrow> bool \<times> StepResult"
  base_openModuleFiles ::
    "FileSystem \<Rightarrow> Identifier \<times> SourceLoc \<Rightarrow> string \<Rightarrow> string \<Rightarrow> string \<Rightarrow> LoadResult"

subsection \<open>The header of an interface file\<close>

definition InterfaceFormatVersion :: Version where
  "InterfaceFormatVersion = [1, 0]"

text \<open>
  Modelled from the spec: \<^verbatim>\<open>Version::asMajorVersion\<close> is declared in
  \<^verbatim>\<open>swift/Basic/Version.h\<close>, which is not part of the source at hand. The major version
  is the first component of a version.
\<close>

definition asMajorVersion :: "Version \<Rightarrow> Version" where
  "asMajorVersion V = take 1 V"

text \<open>
  Both regular expressions are compiled with \<^verbatim>\<open>llvm::Regex::Newline\<close>, so \<^verbatim>\<open>^\<close> and
  \<^verbatim>\<open>$\<close> match at the ends of a line and \<^verbatim>\<open>.\<close> matches no newline: a match is a whole
  line, the first one of the buffer that fits, and the result is its one group.
\<close>

fun splitLines :: "string \<Rightarrow> string list" where
  "splitLines [] = [[]]"
| "splitLines (c # cs) =
     (if c = CHR 0x0A then [] # splitLines cs
      else (case splitLines cs of [] \<Rightarrow> [[c]] | l # ls \<Rightarrow> (c # l) # ls))"

definition SWIFT_INTERFACE_FORMAT_VERSION_KEY :: string where
  "SWIFT_INTERFACE_FORMAT_VERSION_KEY = ''swift-interface-format-version''"

definition SWIFT_MODULE_FLAGS_KEY :: string where
  "SWIFT_MODULE_FLAGS_KEY = ''swift-module-flags''"

definition afterKey :: "string \<Rightarrow> string \<Rightarrow> string option" where
  "afterKey key line =
     (let p = ''// '' @ key @ '': ''
      in if prefix p line then Some (drop (length p) line) else None)"

text \<open>
  The bracket expression \<^verbatim>\<open>[0-9\.]\<close>: in a bracket a backslash stands for itself, so the
  class holds the digits, the backslash and the dot.
\<close>

definition isVersionChar :: "char \<Rightarrow> bool" where
  "isVersionChar c = (c \<in> set ''0123456789.'' \<or> c = CHR 0x5C)"

text \<open>\<^verbatim>\<open>^// swift-interface-format-version: ([0-9\.]+)$\<close>\<close>

definition matchFormatVersionLine :: "string \<Rightarrow> string option" where
  "matchFormatVersionLine line =
     (case afterKey SWIFT_INTERFACE_FORMAT_VERSION_KEY line of
        None \<Rightarrow> None
      | Some v \<Rightarrow> if v \<noteq> [] \<and> list_all isVersionChar v then Some v else None)"

definition getSwiftInterfaceFormatVersionRegex :: "string \<Rightarrow> string option" where
  "getSwiftInterfaceFormatVersionRegex SB =
     (case List.map_filter matchFormatVersionLine (splitLines SB) of
        [] \<Rightarrow> None | v # _ \<Rightarrow> Some v)"

text \<open>\<^verbatim>\<open>^// swift-module-flags: (.*)$\<close>\<close>

definition getSwiftInterfaceModuleFlagsRegex :: "string \<Rightarrow> string option" where
  "getSwiftInterfaceModuleFlagsRegex SB =
     (case List.map_filter (afterKey SWIFT_MODULE_FLAGS_KEY) (splitLines SB) of
        [] \<Rightarrow> None | f # _ \<Rightarrow> Some f)"

definition getFileOrSTDIN :: "FileSystem \<Rightarrow> string \<Rightarrow> errc + MemoryBuffer" where
  "getFileOrSTDIN FS Filename =
     (if Filename = ''-'' then getSTDIN FS else getBufferForFile FS Filename)"

definition diagnoseAll :: "DiagnosticEngine \<Rightarrow> SourceLoc \<Rightarrow> (bool \<times> string) list \<Rightarrow> DiagnosticEngine" where
  "diagnoseAll Diags Loc ds = foldl (\<lambda>D (e, m). diagnose D Loc (external_diagnostic e m)) Diags ds"

text \<open>
  \<^verbatim>\<open>extractSwiftInterfaceVersionAndArgs\<close>: \<open>True\<close> is the error return; the version and
  the arguments are the two out-parameters.
\<close>

definition extractSwiftInterfaceVersionAndArgs ::
  "Externals \<Rightarrow> SourceLoc \<Rightarrow> string \<Rightarrow> World \<Rightarrow> bool \<times> Version \<times> string list \<times> World" where
  "extractSwiftInterfaceVersionAndArgs E DiagLoc SwiftInterfacePathIn w =
     (case getFileOrSTDIN (fs w) SwiftInterfacePathIn of
        Inl ec \<Rightarrow>
          (True, [], [],
           w\<lparr>diags := diagnose (diags w) DiagLoc (error_open_input_file SwiftInterfacePathIn ec)\<rparr>)
      | Inr SB \<Rightarrow>
          (case getSwiftInterfaceFormatVersionRegex SB of
             None \<Rightarrow>
               (True, [], [],
                w\<lparr>diags := diagnose (diags w) DiagLoc
                              error_extracting_version_from_parseable_interface\<rparr>)
           | Some VersMatch \<Rightarrow>
               (case getSwiftInterfaceModuleFlagsRegex SB of
                  None \<Rightarrow>
                    (True, [], [],
                     w\<lparr>diags := diagnose (diags w) DiagLoc
                                   error_extracting_flags_from_parseable_interface\<rparr>)
                | Some FlagMatch \<Rightarrow>
                    (let (Vers, ds) = Version_parse E VersMatch
                     in (False, Vers, TokenizeGNUCommandLine E FlagMatch,
                         w\<lparr>diags := diagnoseAll (diags w) noSourceLoc ds\<rparr>)))))"

subsection \<open>getBufferOfDependency\<close>

definition getBufferOfDependency ::
  "FileSystem \<Rightarrow> string \<Rightarrow> string \<Rightarrow> DiagnosticEngine \<Rightarrow> SourceLoc
     \<Rightarrow> MemoryBuffer option \<times> DiagnosticEngine" where
  "getBufferOfDependency FS ModulePath DepPath Diags DiagLoc =
     (case getBufferForFile FS DepPath of
        Inl ec \<Rightarrow>
          (None, diagnose Diags DiagLoc
                   (missing_dependency_of_parseable_module_interface DepPath ModulePath ec))
      | Inr DepBuf \<Rightarrow> (Some DepBuf, Diags))"

text \<open>\<^verbatim>\<open>MemoryBuffer::getBufferSize\<close>, compared with and stored into a \<^verbatim>\<open>uint64_t\<close>.\<close>

definition getBufferSize :: "MemoryBuffer \<Rightarrow> 64 word" where
  "getBufferSize buf = of_nat (length buf)"

subsection \<open>The cache key and the sub-invocation\<close>

definition getCacheHash :: "Externals \<Rightarrow> ASTContext \<Rightarrow> CompilerInvocation \<Rightarrow> string \<Rightarrow> string" where
  "getCacheHash E Ctx SubInvocation InPath =
     (let vers = getSwiftFullVersion E (EffectiveLanguageVersion Ctx);
          H = hash_value E vers;
          H = hash_combine E H InPath;
          H = hash_combine E H (getPCHHashComponents E SubInvocation)
      in APInt_toString E H 36)"

definition createInvocationForBuildingFromInterface ::
  "Externals \<Rightarrow> ASTContext \<Rightarrow> string \<Rightarrow> string \<Rightarrow> CompilerInvocation" where
  "createInvocationForBuildingFromInterface E Ctx ModuleName CacheDir =
     (CompilerInvocation_init E)
       \<lparr>inv_ImportSearchPaths := ImportSearchPaths Ctx,
        inv_FrameworkSearchPaths := FrameworkSearchPaths Ctx,
        inv_SDKPath := SDKPath Ctx,
        inv_InputKind := SwiftModuleInterface,
        inv_RuntimeResourcePath := RuntimeResourcePath Ctx,
        inv_TargetTriple := Target Ctx,
        inv_ClangModuleCachePath := CacheDir,
        inv_ModuleName := ModuleName,
        inv_SuppressWarnings := True,
        inv_DebuggerSupport := DebuggerSupport Ctx,
        inv_EnableObjCAttrRequiresFoundation := False\<rparr>"

definition computeCachedOutputPath ::
  "Externals \<Rightarrow> ASTContext \<Rightarrow> CompilerInvocation \<Rightarrow> string \<Rightarrow> string" where
  "computeCachedOutputPath E Ctx SubInvocation InPath =
     path_append E (inv_ClangModuleCachePath SubInvocation) (inv_ModuleName SubInvocation)
       @ ''-'' @ getCacheHash E Ctx SubInvocation InPath
       @ ''.'' @ getExtension E TY_SwiftModuleFile"

definition configureSubInvocationInputsAndOutputs ::
  "CompilerInvocation \<Rightarrow> string \<Rightarrow> string \<Rightarrow> CompilerInvocation" where
  "configureSubInvocationInputsAndOutputs SubInvocation InPath OutPath =
     SubInvocation
       \<lparr>inv_RequestedAction := EmitModuleOnly,
        inv_EnableParseableModuleInterface := True,
        inv_Inputs := inv_Inputs SubInvocation @ [InPath],
        inv_ModuleOutputPath := OutPath,
        inv_MainOutput := ''/<unused>''\<rparr>"

subsection \<open>swiftModuleIsUpToDate\<close>

definition trackDependency :: "World \<Rightarrow> string \<Rightarrow> World" where
  "trackDependency w p =
     (case tracker w of
        None \<Rightarrow> w
      | Some T \<Rightarrow> w\<lparr>tracker := Some (addDependency T p False)\<rparr>)"

text \<open>The loop \<^verbatim>\<open>for (auto In : AllDeps)\<close> of \<^verbatim>\<open>swiftModuleIsUpToDate\<close>.\<close>

fun swiftModuleIsUpToDate_loop ::
  "Externals \<Rightarrow> string \<Rightarrow> SourceLoc \<Rightarrow> FileDependency list \<Rightarrow> World \<Rightarrow> bool \<times> World" where
  "swiftModuleIsUpToDate_loop E OutPath Loc [] w = (True, w)"
| "swiftModuleIsUpToDate_loop E OutPath Loc (In # AllDeps) w =
     (let w1 = trackDependency w (Path In);
          (DepBuf, Diags') = getBufferOfDependency (fs w1) OutPath (Path In) (diags w1) Loc;
          w2 = w1\<lparr>diags := Diags'\<rparr>
      in case DepBuf of
           None \<Rightarrow> (False, w2)
         | Some buf \<Rightarrow>
             if getBufferSize buf \<noteq> Size In \<or> xxHash64 E buf \<noteq> Hash In
             then (False, w2)
             else swiftModuleIsUpToDate_loop E OutPath Loc AllDeps w2)"

definition swiftModuleIsUpToDate ::
  "Externals \<Rightarrow> Identifier \<times> SourceLoc \<Rightarrow> string \<Rightarrow> World \<Rightarrow> (bool \<times> World) Exec" where
  "swiftModuleIsUpToDate E ModuleID OutPath w =
     (case getBufferForFile (fs w) OutPath of
        Inl ec \<Rightarrow> Returns (False, w)
      | Inr OutBuf \<Rightarrow>
          (let (VI, AllDeps) = validateSerializedAST E OutBuf
           in if status VI \<noteq> Valid then Returns (False, w)
              else if \<not> NDEBUG E \<and> name VI \<noteq> fst ModuleID then AssertionFailure
              else Returns (swiftModuleIsUpToDate_loop E OutPath (snd ModuleID) AllDeps w)))"

subsection \<open>collectDepsForSerialization\<close>

text \<open>
  The inner loop \<^verbatim>\<open>for (auto const &SubDep : SubDeps)\<close>. Its state is the string set
  \<^verbatim>\<open>AllDepNames\<close>, the output vector \<^verbatim>\<open>Deps\<close> and the world.
\<close>

fun collectDepsForSerialization_SubDeps ::
  "FileDependency list \<Rightarrow> string set \<times> FileDependency list \<times> World
     \<Rightarrow> string set \<times> FileDependency list \<times> World" where
  "collectDepsForSerialization_SubDeps [] (AllDepNames, Deps, w) = (AllDepNames, Deps, w)"
| "collectDepsForSerialization_SubDeps (SubDep # SubDeps) (AllDepNames, Deps, w) =
     (if Path SubDep \<notin> AllDepNames
      then collectDepsForSerialization_SubDeps SubDeps
             (insert (Path SubDep) AllDepNames, Deps @ [SubDep], trackDependency w (Path SubDep))
      else collectDepsForSerialization_SubDeps SubDeps (AllDepNames, Deps, w))"

text \<open>
  The outer loop \<^verbatim>\<open>for (auto const &DepName : InitialDepNames)\<close>. \<open>True\<close> is the error
  return; \<^verbatim>\<open>Deps\<close> keeps what was pushed before it.
\<close>

fun collectDepsForSerialization_loop ::
  "Externals \<Rightarrow> string \<Rightarrow> string \<Rightarrow> SourceLoc \<Rightarrow> string list
     \<Rightarrow> string set \<times> FileDependency list \<times> World \<Rightarrow> bool \<times> FileDependency list \<times> World" where
  "collectDepsForSerialization_loop E InPath ModuleCachePath DiagLoc [] (AllDepNames, Deps, w) =
     (False, Deps, w)"
| "collectDepsForSerialization_loop E InPath ModuleCachePath DiagLoc (DepName # Names)
       (AllDepNames, Deps, w) =
     (let w1 = (if DepName \<notin> AllDepNames then trackDependency w DepName else w);
          AllDepNames1 = insert DepName AllDepNames;
          (DepBuf, Diags') = getBufferOfDependency (fs w1) InPath DepName (diags w1) DiagLoc;
          w2 = w1\<lparr>diags := Diags'\<rparr>
      in case DepBuf of
           None \<Rightarrow> (True, Deps, w2)
         | Some buf \<Rightarrow>
             (let Deps1 = Deps @ [\<lparr>Size = getBufferSize buf, Hash = xxHash64 E buf, Path = DepName\<rparr>]
              in if ModuleCachePath = []
                 then collectDepsForSerialization_loop E InPath ModuleCachePath DiagLoc Names
                        (AllDepNames1, Deps1, w2)
                 else if lookupTypeForExtension E (path_extension E DepName) = TY_SwiftModuleFile
                         \<and> prefix ModuleCachePath DepName
                 then (let (VI, SubDeps) = validateSerializedAST E buf
                       in if status VI \<noteq> Valid
                          then (True, Deps1,
                                w2\<lparr>diags := diagnose (diags w2) DiagLoc
                                     (error_extracting_dependencies_from_cached_module DepName)\<rparr>)
                          else collectDepsForSerialization_loop E InPath ModuleCachePath DiagLoc Names
                                 (collectDepsForSerialization_SubDeps SubDeps (AllDepNames1, Deps1, w2)))
                 else collectDepsForSerialization_loop E InPath ModuleCachePath DiagLoc Names
                        (AllDepNames1, Deps1, w2)))"

text \<open>
  \<open>DTDeps\<close> is \<^verbatim>\<open>SubInstance.getDependencyTracker()->getDependencies()\<close>; \<open>Deps\<close> is the
  vector the caller passes in.
\<close>

definition collectDepsForSerialization ::
  "Externals \<Rightarrow> string list \<Rightarrow> string \<Rightarrow> string \<Rightarrow> FileDependency list \<Rightarrow> SourceLoc \<Rightarrow> World
     \<Rightarrow> bool \<times> FileDependency list \<times> World" where
  "collectDepsForSerialization E DTDeps InPath ModuleCachePath Deps DiagLoc w =
     (let InitialDepNames = DTDeps @ [InPath]
      in collectDepsForSerialization_loop E InPath ModuleCachePath DiagLoc InitialDepNames
           ({}, Deps, w))"

subsection \<open>buildSwiftModuleFromSwiftInterface\<close>

text \<open>
  A step of the sub-compilation is logged, its diagnostics reach the host's engine and
  the file system is the one it leaves behind.
\<close>

definition afterStep :: "World \<Rightarrow> SourceLoc \<Rightarrow> Effect \<Rightarrow> StepResult \<Rightarrow> World" where
  "afterStep w DiagLoc e r =
     w\<lparr>fs := fs_after r,
       diags := diagnoseAll (diags w) DiagLoc (emitted r),
       effects := effects w @ [e]\<rparr>"

text \<open>
  The body of the closure given to \<^verbatim>\<open>RunSafelyOnThread\<close>, in four parts. Each returns
  \<open>(RunSuccess, SubError, world)\<close>: \<open>RunSuccess\<close> is false when a step terminated
  abnormally inside the crash recovery context.

  The fourth part: the dependency list is collected, then the module is optimized and
  serialized with it.
\<close>

definition buildSwiftModuleFromSwiftInterface_serialize ::
  "Externals \<Rightarrow> SourceLoc \<Rightarrow> CompilerInvocation \<Rightarrow> string \<Rightarrow> string \<Rightarrow> string \<Rightarrow> World
     \<Rightarrow> bool \<times> bool \<times> World" where
  "buildSwiftModuleFromSwiftInterface_serialize E DiagLoc SubInvocation InPath OutPath ModuleCachePath w =
     (let DTDeps = SubInstance_getDependencies E SubInvocation (fs w);
          (err, Deps, w4) =
             collectDepsForSerialization E DTDeps InPath ModuleCachePath [] DiagLoc w
      in if err then (True, True, w4)
         else
     (let (serialized, r5) = SubInstance_performSILProcessing E SubInvocation OutPath Deps (fs w4);
          w5 = afterStep w4 DiagLoc performSILProcessing r5;
          w6 = (if serialized then w5\<lparr>effects := effects w5 @ [serialize OutPath Deps]\<rparr> else w5)
      in if crashed r5 then (False, False, w6)
         else if failed r5 then (True, True, w6)
         else (True, hadAnyError (diags w6), w6)))"

text \<open>The third part: the sub-instance is set up and the module is compiled.\<close>

definition buildSwiftModuleFromSwiftInterface_compile ::
  "Externals \<Rightarrow> SourceLoc \<Rightarrow> CompilerInvocation \<Rightarrow> string \<Rightarrow> string \<Rightarrow> string \<Rightarrow> World
     \<Rightarrow> bool \<times> bool \<times> World" where
  "buildSwiftModuleFromSwiftInterface_compile E DiagLoc SubInvocation InPath OutPath ModuleCachePath w =
     (let r1 = SubInstance_setup E SubInvocation (fs w);
          w1 = afterStep w DiagLoc CompilerInstance_setup r1
      in if crashed r1 then (False, False, w1)
         else if failed r1 then (True, True, w1)
         else
     (let r2 = SubInstance_performSema E SubInvocation (fs w1);
          w2 = afterStep w1 DiagLoc performSema r2
      in if crashed r2 then (False, False, w2)
         else if failed r2 then (True, True, w2)
         else
     (let r3 = SubInstance_performSILGeneration E SubInvocation (fs w2);
          w3 = afterStep w2 DiagLoc performSILGeneration r3
      in if crashed r3 then (False, False, w3)
         else if failed r3 then (True, True, w3)
         else buildSwiftModuleFromSwiftInterface_serialize E DiagLoc SubInvocation InPath OutPath
                ModuleCachePath w3)))"

text \<open>The second part: the arguments of the interface are parsed and the module name is checked.\<close>

definition buildSwiftModuleFromSwiftInterface_configure ::
  "Externals \<Rightarrow> SourceLoc \<Rightarrow> CompilerInvocation \<Rightarrow> string \<Rightarrow> string \<Rightarrow> string \<Rightarrow> string list
     \<Rightarrow> World \<Rightarrow> bool \<times> bool \<times> World" where
  "buildSwiftModuleFromSwiftInterface_configure E DiagLoc SubInvocation InPath OutPath ModuleCachePath
       SubArgs w =
     (let ExpectedModuleName = inv_ModuleName SubInvocation;
          (SubInvocation', r) = parseArgs E SubArgs SubInvocation (fs w);
          w1 = afterStep w DiagLoc (CompilerInvocation_parseArgs SubArgs) r
      in if crashed r then (False, False, w1)
         else if failed r then (True, True, w1)
         else if inv_ModuleName SubInvocation' \<noteq> ExpectedModuleName
         then (let d = (if inv_DebuggerSupport SubInvocation'
                        then serialization_name_mismatch_repl
                               (inv_ModuleName SubInvocation') ExpectedModuleName
                        else serialization_name_mismatch
                               (inv_ModuleName SubInvocation') ExpectedModuleName)
               in (True, True, w1\<lparr>diags := diagnose (diags w1) DiagLoc d\<rparr>))
         else buildSwiftModuleFromSwiftInterface_compile E DiagLoc
                (SubInvocation'\<lparr>inv_OptMode := ForSpeed\<rparr>) InPath OutPath ModuleCachePath w1)"

text \<open>
  The first part: the cache directory is created, the header of the interface is read
  and its format version is checked. \<^verbatim>\<open>firstInput()\<close> of an invocation without inputs
  has no value; the model counts it as an abnormal termination.
\<close>

definition createModuleCacheDirectory :: "Externals \<Rightarrow> string \<Rightarrow> World \<Rightarrow> World" where
  "createModuleCacheDirectory E ModuleCachePath w =
     (if ModuleCachePath \<noteq> []
      then w\<lparr>fs := sys_create_directory E ModuleCachePath (fs w),
             effects := effects w @ [create_directory ModuleCachePath]\<rparr>
      else w)"

definition buildSwiftModuleFromSwiftInterface_body ::
  "Externals \<Rightarrow> SourceLoc \<Rightarrow> CompilerInvocation \<Rightarrow> string \<Rightarrow> World \<Rightarrow> bool \<times> bool \<times> World" where
  "buildSwiftModuleFromSwiftInterface_body E DiagLoc SubInvocation ModuleCachePath w =
     (let w0 = createModuleCacheDirectory E ModuleCachePath w
      in case inv_Inputs SubInvocation of
           [] \<Rightarrow> (False, False, w0)
         | InPath # _ \<Rightarrow>
             (let OutPath = inv_ModuleOutputPath SubInvocation;
                  (err, Vers, SubArgs, w1) = extractSwiftInterfaceVersionAndArgs E DiagLoc InPath w0
              in if err then (True, True, w1)
                 else if asMajorVersion Vers \<noteq> asMajorVersion InterfaceFormatVersion
                 then (True, True,
                       w1\<lparr>diags := diagnose (diags w1) DiagLoc
                                      (unsupported_version_of_parseable_interface InPath Vers)\<rparr>)
                 else buildSwiftModuleFromSwiftInterface_configure E DiagLoc SubInvocation
                        InPath OutPath ModuleCachePath SubArgs w1))"

text \<open>\<^verbatim>\<open>return !RunSuccess || SubError;\<close>\<close>

definition buildSwiftModuleFromSwiftInterface ::
  "Externals \<Rightarrow> SourceLoc \<Rightarrow> CompilerInvocation \<Rightarrow> string \<Rightarrow> World \<Rightarrow> bool \<times> World" where
  "buildSwiftModuleFromSwiftInterface E DiagLoc SubInvocation ModuleCachePath w =
     (let (RunSuccess, SubError, w') =
            buildSwiftModuleFromSwiftInterface_body E DiagLoc SubInvocation ModuleCachePath w
      in (\<not> RunSuccess \<or> SubError, w'))"

text \<open>
  The public \<^verbatim>\<open>ParseableInterfaceModuleLoader::buildSwiftModuleFromSwiftInterface\<close>: no
  cache path and no outer tracker.
\<close>

definition ParseableInterfaceModuleLoader_buildSwiftModuleFromSwiftInterface ::
  "Externals \<Rightarrow> ASTContext \<Rightarrow> string \<Rightarrow> string \<Rightarrow> string \<Rightarrow> string \<Rightarrow> World \<Rightarrow> bool \<times> World" where
  "ParseableInterfaceModuleLoader_buildSwiftModuleFromSwiftInterface E Ctx CacheDir ModuleName
       InPath OutPath w =
     (let SubInvocation = createInvocationForBuildingFromInterface E Ctx ModuleName CacheDir;
          SubInvocation = configureSubInvocationInputsAndOutputs SubInvocation InPath OutPath;
          (err, w') = buildSwiftModuleFromSwiftInterface E noSourceLoc SubInvocation []
                        (w\<lparr>tracker := None\<rparr>)
      in (err, w'\<lparr>tracker := tracker w\<rparr>))"

subsection \<open>The loader\<close>

definition serializedASTLooksValidOrCannotBeRead :: "Externals \<Rightarrow> FileSystem \<Rightarrow> string \<Rightarrow> bool" where
  "serializedASTLooksValidOrCannotBeRead E FS ModPath =
     (case getBufferForFile FS ModPath of
        Inl ec \<Rightarrow> ec \<noteq> no_such_file_or_directory
      | Inr ModBuf \<Rightarrow> status (fst (validateSerializedAST E ModBuf)) = Valid)"

text \<open>
  \<^verbatim>\<open>ParseableInterfaceModuleLoader::openModuleFiles\<close>. \<open>Ctx\<close>, \<open>CacheDir\<close> and \<open>LoadMode\<close>
  are members of the loader; its \<^verbatim>\<open>dependencyTracker\<close> is the tracker of the world.
  The two buffers are set only by the call to the base class.
\<close>

definition openModuleFiles ::
  "Externals \<Rightarrow> ASTContext \<Rightarrow> string \<Rightarrow> ModuleLoadingMode \<Rightarrow> Identifier \<times> SourceLoc \<Rightarrow> string
     \<Rightarrow> string \<Rightarrow> string \<Rightarrow> World \<Rightarrow> (LoadResult \<times> World) Exec" where
  "openModuleFiles E Ctx CacheDir LoadMode ModuleID DirName ModuleFilename ModuleDocFilename w =
     (if \<not> NDEBUG E \<and> LoadMode = OnlySerialized then AssertionFailure
      else
     (let ModPath = path_append E DirName ModuleFilename;
          Ext = getExtension E TY_SwiftParseableInterfaceFile;
          InPath = path_replace_extension E ModPath Ext
      in if \<not> exists (fs w) InPath
         then Returns (\<lparr>ErrorCode = Some no_such_file_or_directory,
                        ModuleBuffer = None, ModuleDocBuffer = None\<rparr>, w)
         else if LoadMode = PreferSerialized \<and> serializedASTLooksValidOrCannotBeRead E (fs w) ModPath
         then Returns (\<lparr>ErrorCode = Some not_supported,
                        ModuleBuffer = None, ModuleDocBuffer = None\<rparr>, w)
         else
     (let SubInvocation = createInvocationForBuildingFromInterface E Ctx (fst ModuleID) CacheDir;
          OutPath = computeCachedOutputPath E Ctx SubInvocation InPath;
          SubInvocation = configureSubInvocationInputsAndOutputs SubInvocation InPath OutPath
      in case swiftModuleIsUpToDate E ModuleID OutPath w of
           AssertionFailure \<Rightarrow> AssertionFailure
         | Returns (UpToDate, w1) \<Rightarrow>
             (let (BuildFailed, w2) =
                    (if \<not> UpToDate
                     then buildSwiftModuleFromSwiftInterface E (snd ModuleID) SubInvocation CacheDir w1
                     else (False, w1))
              in if BuildFailed
                 then Returns (\<lparr>ErrorCode = Some invalid_argument,
                                ModuleBuffer = None, ModuleDocBuffer = None\<rparr>, w2)
                 else Returns
                        (base_openModuleFiles E (fs w2) ModuleID CacheDir (path_filename E OutPath)
                           ModuleDocFilename,
                         w2\<lparr>effects := effects w2 @
                              [SerializedModuleLoaderBase_openModuleFiles CacheDir
                                 (path_filename E OutPath)]\<rparr>)))))"

section \<open>Notions used in the statements\<close>

text \<open>
  The test of the loop of \<^verbatim>\<open>swiftModuleIsUpToDate\<close>, negated: the dependency can be
  read and its size and hash are the recorded ones.
\<close>

definition depIsUpToDate :: "Externals \<Rightarrow> FileSystem \<Rightarrow> FileDependency \<Rightarrow> bool" where
  "depIsUpToDate E FS In =
     (case getBufferForFile FS (Path In) of
        Inl ec \<Rightarrow> False
      | Inr DepBuf \<Rightarrow> getBufferSize DepBuf = Size In \<and> xxHash64 E DepBuf = Hash In)"

text \<open>
  The entries of a dependency list up to and including the first one that is not up to
  date.
\<close>

definition checkedDeps :: "Externals \<Rightarrow> FileSystem \<Rightarrow> FileDependency list \<Rightarrow> FileDependency list" where
  "checkedDeps E FS AllDeps =
     takeWhile (depIsUpToDate E FS) AllDeps @ take 1 (dropWhile (depIsUpToDate E FS) AllDeps)"

text \<open>A sequence of \<^verbatim>\<open>addDependency(p, /*IsSystem=*/false)\<close> calls on a tracker that may be null.\<close>

definition addDependencies :: "DependencyTracker option \<Rightarrow> string list \<Rightarrow> DependencyTracker option" where
  "addDependencies T ps = map_option (\<lambda>T. T @ map (\<lambda>p. (p, False)) ps) T"

text \<open>
  What the inner loop of \<^verbatim>\<open>collectDepsForSerialization\<close> pushes: the entries of a
  dependency list whose path is not in the set, each path once.
\<close>

fun newSubDeps :: "string set \<Rightarrow> FileDependency list \<Rightarrow> FileDependency list" where
  "newSubDeps A [] = []"
| "newSubDeps A (d # ds) =
     (if Path d \<notin> A then d # newSubDeps (insert (Path d) A) ds else newSubDeps A ds)"

text \<open>The test under which the outer loop opens a dependency as a cached module.\<close>

definition isCachedSwiftModule :: "Externals \<Rightarrow> string \<Rightarrow> string \<Rightarrow> bool" where
  "isCachedSwiftModule E ModuleCachePath DepName \<longleftrightarrow>
     ModuleCachePath \<noteq> [] \<and>
     lookupTypeForExtension E (path_extension E DepName) = TY_SwiftModuleFile \<and>
     prefix ModuleCachePath DepName"

text \<open>The entry the outer loop pushes for a dependency it has read.\<close>

definition dependencyOf :: "Externals \<Rightarrow> string \<Rightarrow> MemoryBuffer \<Rightarrow> FileDependency" where
  "dependencyOf E DepName buf = \<lparr>Size = getBufferSize buf, Hash = xxHash64 E buf, Path = DepName\<rparr>"

text \<open>\<^verbatim>\<open>if (AllDepNames.insert(DepName).second && OuterTracker) OuterTracker->addDependency(...)\<close>\<close>

definition trackNew :: "World \<Rightarrow> string set \<Rightarrow> string \<Rightarrow> World" where
  "trackNew w A n = (if n \<notin> A then trackDependency w n else w)"

text \<open>The two diagnostics of \<^verbatim>\<open>collectDepsForSerialization\<close>.\<close>

definition isDependencyError :: "diag \<Rightarrow> bool" where
  "isDependencyError d =
     (case d of
        missing_dependency_of_parseable_module_interface _ _ _ \<Rightarrow> True
      | error_extracting_dependencies_from_cached_module _ \<Rightarrow> True
      | _ \<Rightarrow> False)"

text \<open>
  A dependency on which the outer loop returns with an error: it cannot be read, or it
  is a cached module that \<^verbatim>\<open>validateSerializedAST\<close> does not report valid.
\<close>

definition cannotBeCollected :: "Externals \<Rightarrow> FileSystem \<Rightarrow> string \<Rightarrow> string \<Rightarrow> bool" where
  "cannotBeCollected E FS ModuleCachePath DepName =
     (case getBufferForFile FS DepName of
        Inl ec \<Rightarrow> True
      | Inr buf \<Rightarrow> isCachedSwiftModule E ModuleCachePath DepName \<and>
                   status (fst (validateSerializedAST E buf)) \<noteq> Valid)"

section \<open>An example installation\<close>

text \<open>
  A file system with four interface files, four headers, cached modules and two modules
  next to an interface, and values for the parameters, used to run the definitions on
  concrete inputs.
\<close>

definition exampleInterfaceText :: "string \<Rightarrow> string \<Rightarrow> string" where
  "exampleInterfaceText Vers Name =
     ''// swift-interface-format-version: '' @ Vers @ [CHR 0x0A] @
     ''// swift-module-flags: -module-name '' @ Name @ [CHR 0x0A]"

definition exampleFS :: FileSystem where
  "exampleFS =
     \<lparr>getBufferForFile = (\<lambda>p.
        if p = ''Foo.swiftinterface'' then Inr (exampleInterfaceText ''1.0'' ''Foo'')
        else if p = ''Bar.swiftinterface'' then Inr (exampleInterfaceText ''2.0'' ''Bar'')
        else if p = ''Baz.swiftinterface'' then Inr (exampleInterfaceText ''1.5'' ''Baz'')
        else if p = ''Wrong.swiftinterface'' then Inr (exampleInterfaceText ''1.0'' ''Other'')
        else if p = ''a.h'' then Inr ''A''
        else if p = ''b.h'' then Inr ''B2''
        else if p = ''x.h'' then Inr ''X''
        else if p = ''y.h'' then Inr ''Y''
        else if p = ''cache/B.swiftmodule'' then Inr ''modB''
        else if p = ''cache/Foo.swiftmodule'' then Inr ''modFoo''
        else if p = ''cache/Bad.swiftmodule'' then Inr ''junk''
        else if p = ''sdk/B.swiftmodule'' then Inr ''modB''
        else if p = ''sdk/L.swiftmodule'' then Inl permission_denied
        else Inl no_such_file_or_directory),
      exists = (\<lambda>p. p = ''Foo.swiftinterface'' \<or> p = ''sdk/B.swiftinterface''
                     \<or> p = ''sdk/L.swiftinterface''),
      getSTDIN = Inl io_error\<rparr>"

definition exampleHash :: "MemoryBuffer \<Rightarrow> 64 word" where
  "exampleHash buf = of_nat (sum_list (map of_char buf))"

fun exampleTokenize :: "string \<Rightarrow> string list" where
  "exampleTokenize [] = [[]]"
| "exampleTokenize (c # cs) =
     (if c = CHR '' '' then [] # exampleTokenize cs
      else (case exampleTokenize cs of [] \<Rightarrow> [[c]] | t # ts \<Rightarrow> (c # t) # ts))"

definition exampleStep :: "FileSystem \<Rightarrow> StepResult" where
  "exampleStep FS = \<lparr>crashed = False, failed = False, emitted = [], fs_after = FS\<rparr>"

definition exampleInvocation :: CompilerInvocation where
  "exampleInvocation =
     \<lparr>inv_ImportSearchPaths = [], inv_FrameworkSearchPaths = [], inv_SDKPath = [],
      inv_InputKind = KindNone, inv_RuntimeResourcePath = [], inv_TargetTriple = [],
      inv_ClangModuleCachePath = [], inv_ModuleName = [], inv_SuppressWarnings = False,
      inv_DebuggerSupport = False, inv_EnableObjCAttrRequiresFoundation = True,
      inv_RequestedAction = NoneAction, inv_EnableParseableModuleInterface = False,
      inv_Inputs = [], inv_ModuleOutputPath = [], inv_MainOutput = [],
      inv_ModuleLinkName = [], inv_OptMode = NotSet\<rparr>"

definition exampleExternals :: Externals where
  "exampleExternals =
     \<lparr>NDEBUG = False,
      xxHash64 = exampleHash,
      validateSerializedAST = (\<lambda>buf.
        if buf = ''modB''
        then (\<lparr>name = ''B'', status = Valid\<rparr>,
              [\<lparr>Size = 1, Hash = 88, Path = ''x.h''\<rparr>, \<lparr>Size = 1, Hash = 89, Path = ''y.h''\<rparr>])
        else if buf = ''modFoo''
        then (\<lparr>name = ''Foo'', status = Valid\<rparr>,
              [\<lparr>Size = 1, Hash = 65, Path = ''a.h''\<rparr>, \<lparr>Size = 1, Hash = 66, Path = ''b.h''\<rparr>,
               \<lparr>Size = 1, Hash = 88, Path = ''x.h''\<rparr>])
        else (\<lparr>name = [], status = Malformed\<rparr>, [])),
      path_extension = (\<lambda>p. if suffix ''.swiftmodule'' p then ''.swiftmodule'' else []),
      path_append = (\<lambda>d f. d @ ''/'' @ f),
      path_replace_extension = (\<lambda>p e. takeWhile (\<lambda>c. c \<noteq> CHR ''.'') p @ ''.'' @ e),
      path_filename = (\<lambda>p. rev (takeWhile (\<lambda>c. c \<noteq> CHR ''/'') (rev p))),
      lookupTypeForExtension = (\<lambda>e. if e = ''.swiftmodule'' then TY_SwiftModuleFile else TY_INVALID),
      getExtension = (\<lambda>t. if t = TY_SwiftModuleFile then ''swiftmodule'' else ''swiftinterface''),
      Version_parse = (\<lambda>s.
        (if s = ''1.0'' then [1, 0] else if s = ''1.5'' then [1, 5]
         else if s = ''2.0'' then [2, 0] else [], [])),
      TokenizeGNUCommandLine = exampleTokenize,
      getSwiftFullVersion = (\<lambda>v. ''5.0''),
      hash_value = exampleHash,
      hash_combine = (\<lambda>h s. h + exampleHash s),
      getPCHHashComponents = (\<lambda>i. []),
      APInt_toString = (\<lambda>h r. ''KEY''),
      CompilerInvocation_init = exampleInvocation,
      sys_create_directory = (\<lambda>p FS. FS),
      parseArgs = (\<lambda>args i FS.
        (case args of [a, n] \<Rightarrow> i\<lparr>inv_ModuleName := n\<rparr> | _ \<Rightarrow> i, exampleStep FS)),
      SubInstance_setup = (\<lambda>i. exampleStep),
      SubInstance_performSema = (\<lambda>i. exampleStep),
      SubInstance_performSILGeneration = (\<lambda>i. exampleStep),
      SubInstance_getDependencies = (\<lambda>i FS. [''a.h'']),
      SubInstance_performSILProcessing = (\<lambda>i p ds FS. (True, exampleStep FS)),
      base_openModuleFiles = (\<lambda>FS ID d f df.
        \<lparr>ErrorCode = None, ModuleBuffer = Some ''modFoo'', ModuleDocBuffer = None\<rparr>)\<rparr>"

text \<open>The same parameters with another list of dependencies read by the sub-compilation.\<close>

definition exampleExternalsReading :: "string list \<Rightarrow> Externals" where
  "exampleExternalsReading ds = exampleExternals\<lparr>SubInstance_getDependencies := (\<lambda>i FS. ds)\<rparr>"

definition exampleSubInvocationFor :: "string \<Rightarrow> string \<Rightarrow> CompilerInvocation" where
  "exampleSubInvocationFor Name Input =
     exampleInvocation
       \<lparr>inv_ModuleName := Name, inv_Inputs := [Input],
        inv_ModuleOutputPath := ''cache/'' @ Name @ ''-KEY.swiftmodule''\<rparr>"

definition exampleSubInvocation :: CompilerInvocation where
  "exampleSubInvocation = exampleSubInvocationFor ''Foo'' ''Foo.swiftinterface''"

definition exampleCtx :: ASTContext where
  "exampleCtx =
     \<lparr>ImportSearchPaths = [''sdk''], FrameworkSearchPaths = [], SDKPath = ''sdk'',
      RuntimeResourcePath = ''lib'', Target = ''x86_64'', DebuggerSupport = False,
      EffectiveLanguageVersion = [5]\<rparr>"

definition exampleWorld :: World where
  "exampleWorld =
     \<lparr>fs = exampleFS, diags = \<lparr>diagnosed = [], hadAnyError = False\<rparr>, tracker = Some [],
      effects = []\<rparr>"

text \<open>The world in which the rebuild of the example reaches its last part.\<close>

definition exampleWorldCompiled :: World where
  "exampleWorldCompiled =
     exampleWorld
       \<lparr>effects := [create_directory ''cache'',
          CompilerInvocation_parseArgs [''-module-name'', ''Foo''],
          CompilerInstance_setup, performSema, performSILGeneration]\<rparr>"

lemmas example_defs =
  exampleWorld_def exampleFS_def exampleExternals_def exampleExternalsReading_def exampleHash_def
  exampleStep_def exampleInvocation_def exampleSubInvocation_def exampleSubInvocationFor_def
  exampleInterfaceText_def exampleCtx_def exampleWorldCompiled_def

section \<open>Properties\<close>

subsection \<open>The up-to-date check\<close>

lemma trackDependency_simps [simp]:
  "fs (trackDependency w p) = fs w"
  "diags (trackDependency w p) = diags w"
  "effects (trackDependency w p) = effects w"
  "tracker (trackDependency w p) = addDependencies (tracker w) [p]"
  by (auto simp: trackDependency_def addDependencies_def addDependency_def split: option.splits)

lemma trackDependency_diags_same [simp]:
  "(trackDependency w p)\<lparr>diags := diags w\<rparr> = trackDependency w p"
  by (simp add: trackDependency_def split: option.splits)

lemma addDependencies_append [simp]:
  "addDependencies (addDependencies T ps) qs = addDependencies T (ps @ qs)"
  by (cases T) (auto simp: addDependencies_def)

lemma addDependencies_Nil [simp]: "addDependencies T [] = T"
  by (cases T) (auto simp: addDependencies_def)

lemma loop_frame:
  "fs (snd (swiftModuleIsUpToDate_loop E OutPath Loc AllDeps w)) = fs w \<and>
   effects (snd (swiftModuleIsUpToDate_loop E OutPath Loc AllDeps w)) = effects w"
  by (induction AllDeps arbitrary: w)
     (auto simp: Let_def getBufferOfDependency_def split: sum.splits option.splits prod.splits)

lemma loop_result:
  "fst (swiftModuleIsUpToDate_loop E OutPath Loc AllDeps w) = list_all (depIsUpToDate E (fs w)) AllDeps"
  by (induction AllDeps arbitrary: w)
     (auto simp: Let_def getBufferOfDependency_def depIsUpToDate_def split: sum.splits option.splits prod.splits)

lemma loop_tracker:
  "tracker (snd (swiftModuleIsUpToDate_loop E OutPath Loc AllDeps w)) =
     addDependencies (tracker w) (map Path (checkedDeps E (fs w) AllDeps))"
proof (induction AllDeps arbitrary: w)
  case Nil
  then show ?case by (simp add: checkedDeps_def)
next
  case (Cons In AllDeps)
  show ?case
  proof (cases "depIsUpToDate E (fs w) In")
    case True
    then show ?thesis
      using Cons.IH [of "trackDependency w (Path In)"]
      by (auto simp: Let_def getBufferOfDependency_def depIsUpToDate_def checkedDeps_def
          split: sum.splits)
  next
    case False
    then show ?thesis
      by (auto simp: Let_def getBufferOfDependency_def depIsUpToDate_def checkedDeps_def
          split: sum.splits)
  qed
qed

lemma loop_short_circuit:
  "list_all (depIsUpToDate E (fs w)) pre \<Longrightarrow> \<not> depIsUpToDate E (fs w) bad \<Longrightarrow>
   swiftModuleIsUpToDate_loop E OutPath Loc (pre @ bad # post) w =
   swiftModuleIsUpToDate_loop E OutPath Loc (pre @ [bad]) w"
  by (induction pre arbitrary: w)
     (auto simp: Let_def getBufferOfDependency_def depIsUpToDate_def split: sum.splits option.splits prod.splits)

lemma depIsUpToDate_iff:
  "depIsUpToDate E FS In \<longleftrightarrow>
   (\<exists>DepBuf. getBufferForFile FS (Path In) = Inr DepBuf \<and> getBufferSize DepBuf = Size In
      \<and> xxHash64 E DepBuf = Hash In)"
  by (auto simp: depIsUpToDate_def split: sum.splits)

text \<open>
  Claim C1. Provided the assertion on the module name does not abort the process (it is
  compiled out, or a readable and valid artifact carries the expected name),
  \<^verbatim>\<open>swiftModuleIsUpToDate\<close> returns, and it returns true if and only if the artifact at
  \<open>OutPath\<close> can be read, \<^verbatim>\<open>validateSerializedAST\<close> reports it valid, and every entry of
  its dependency list can be read from the file system with the recorded size and the
  recorded hash. So an unreadable or invalid artifact gives false. At the first entry that
  cannot be read or whose size or hash differs the function returns false with the world
  that the loop leaves on the list cut after that entry: the entries behind it are neither
  reported nor read.
\<close>

theorem swiftModuleIsUpToDate_iff_ledger_matches:
  assumes no_abort:
    "NDEBUG E \<or>
     (\<forall>OutBuf. getBufferForFile (fs w) OutPath = Inr OutBuf \<longrightarrow>
        status (fst (validateSerializedAST E OutBuf)) = Valid \<longrightarrow>
        name (fst (validateSerializedAST E OutBuf)) = fst ModuleID)"
  shows
    "(\<exists>b w'. swiftModuleIsUpToDate E ModuleID OutPath w = Returns (b, w') \<and>
        (b \<longleftrightarrow>
           (\<exists>OutBuf. getBufferForFile (fs w) OutPath = Inr OutBuf \<and>
              status (fst (validateSerializedAST E OutBuf)) = Valid \<and>
              (\<forall>In \<in> set (snd (validateSerializedAST E OutBuf)).
                 \<exists>DepBuf. getBufferForFile (fs w) (Path In) = Inr DepBuf \<and>
                   getBufferSize DepBuf = Size In \<and> xxHash64 E DepBuf = Hash In)))) \<and>
     (\<forall>OutBuf pre bad post.
        getBufferForFile (fs w) OutPath = Inr OutBuf \<longrightarrow>
        status (fst (validateSerializedAST E OutBuf)) = Valid \<longrightarrow>
        snd (validateSerializedAST E OutBuf) = pre @ bad # post \<longrightarrow>
        (\<forall>In \<in> set pre.
           \<exists>DepBuf. getBufferForFile (fs w) (Path In) = Inr DepBuf \<and>
             getBufferSize DepBuf = Size In \<and> xxHash64 E DepBuf = Hash In) \<longrightarrow>
        \<not> (\<exists>DepBuf. getBufferForFile (fs w) (Path bad) = Inr DepBuf \<and>
             getBufferSize DepBuf = Size bad \<and> xxHash64 E DepBuf = Hash bad) \<longrightarrow>
        swiftModuleIsUpToDate E ModuleID OutPath w =
          Returns (False,
            snd (swiftModuleIsUpToDate_loop E OutPath (snd ModuleID) (pre @ [bad]) w)))"
proof (cases "getBufferForFile (fs w) OutPath")
  case (Inl ec)
  then show ?thesis
    by (auto simp: swiftModuleIsUpToDate_def)
next
  case (Inr OutBuf)
  obtain VI AllDeps where v: "validateSerializedAST E OutBuf = (VI, AllDeps)"
    by (cases "validateSerializedAST E OutBuf")
  show ?thesis
  proof (cases "status VI = Valid")
    case False
    with Inr v show ?thesis
      by (auto simp: swiftModuleIsUpToDate_def)
  next
    case True
    with no_abort Inr v have nm: "NDEBUG E \<or> name VI = fst ModuleID"
      by auto
    have run: "swiftModuleIsUpToDate E ModuleID OutPath w =
        Returns (swiftModuleIsUpToDate_loop E OutPath (snd ModuleID) AllDeps w)"
      using Inr v True nm by (auto simp: swiftModuleIsUpToDate_def)
    have res: "fst (swiftModuleIsUpToDate_loop E OutPath (snd ModuleID) AllDeps w) \<longleftrightarrow>
        (\<forall>In \<in> set AllDeps.
           \<exists>DepBuf. getBufferForFile (fs w) (Path In) = Inr DepBuf \<and>
             getBufferSize DepBuf = Size In \<and> xxHash64 E DepBuf = Hash In)"
      by (simp add: loop_result list_all_iff depIsUpToDate_iff)
    have first: "\<exists>b w'. swiftModuleIsUpToDate E ModuleID OutPath w = Returns (b, w') \<and>
        (b \<longleftrightarrow>
           (\<exists>OutBuf. getBufferForFile (fs w) OutPath = Inr OutBuf \<and>
              status (fst (validateSerializedAST E OutBuf)) = Valid \<and>
              (\<forall>In \<in> set (snd (validateSerializedAST E OutBuf)).
                 \<exists>DepBuf. getBufferForFile (fs w) (Path In) = Inr DepBuf \<and>
                   getBufferSize DepBuf = Size In \<and> xxHash64 E DepBuf = Hash In)))"
      using run res Inr v True
      by (cases "swiftModuleIsUpToDate_loop E OutPath (snd ModuleID) AllDeps w") auto
    have second: "swiftModuleIsUpToDate E ModuleID OutPath w =
          Returns (False,
            snd (swiftModuleIsUpToDate_loop E OutPath (snd ModuleID) (pre @ [bad]) w))"
      if "AllDeps = pre @ bad # post"
        and "\<forall>In \<in> set pre.
           \<exists>DepBuf. getBufferForFile (fs w) (Path In) = Inr DepBuf \<and>
             getBufferSize DepBuf = Size In \<and> xxHash64 E DepBuf = Hash In"
        and "\<not> (\<exists>DepBuf. getBufferForFile (fs w) (Path bad) = Inr DepBuf \<and>
             getBufferSize DepBuf = Size bad \<and> xxHash64 E DepBuf = Hash bad)"
      for pre bad post
    proof -
      from that have p: "list_all (depIsUpToDate E (fs w)) pre" and b: "\<not> depIsUpToDate E (fs w) bad"
        by (simp_all add: list_all_iff depIsUpToDate_iff)
      have "swiftModuleIsUpToDate_loop E OutPath (snd ModuleID) AllDeps w =
            swiftModuleIsUpToDate_loop E OutPath (snd ModuleID) (pre @ [bad]) w"
        using loop_short_circuit [OF p b] that(1) by simp
      moreover have "\<not> fst (swiftModuleIsUpToDate_loop E OutPath (snd ModuleID) (pre @ [bad]) w)"
        using p b by (simp add: loop_result)
      ultimately show ?thesis
        using run by (cases "swiftModuleIsUpToDate_loop E OutPath (snd ModuleID) (pre @ [bad]) w") auto
    qed
    show ?thesis
      using first second Inr v by auto
  qed
qed

theorem swiftModuleIsUpToDate_iff_ledger_matches_witness:
  "getBufferForFile (fs exampleWorld) ''cache/Foo.swiftmodule'' = Inr ''modFoo'' \<and>
   fst (validateSerializedAST exampleExternals ''modFoo'') = \<lparr>name = ''Foo'', status = Valid\<rparr> \<and>
   snd (validateSerializedAST exampleExternals ''modFoo'') =
     [\<lparr>Size = 1, Hash = 65, Path = ''a.h''\<rparr>] @ \<lparr>Size = 1, Hash = 66, Path = ''b.h''\<rparr>
       # [\<lparr>Size = 1, Hash = 88, Path = ''x.h''\<rparr>] \<and>
   swiftModuleIsUpToDate exampleExternals (''Foo'', 0) ''cache/Foo.swiftmodule'' exampleWorld =
     Returns (False, exampleWorld\<lparr>tracker := Some [(''a.h'', False), (''b.h'', False)]\<rparr>) \<and>
   (\<exists>w'. swiftModuleIsUpToDate exampleExternals (''B'', 0) ''cache/B.swiftmodule'' exampleWorld =
     Returns (True, w'))"
proof -
  have h1: "NDEBUG exampleExternals \<or>
     (\<forall>OutBuf. getBufferForFile (fs exampleWorld) ''cache/Foo.swiftmodule'' = Inr OutBuf \<longrightarrow>
      status (fst (validateSerializedAST exampleExternals OutBuf)) = Valid \<longrightarrow>
      name (fst (validateSerializedAST exampleExternals OutBuf)) = fst (''Foo'', 0::nat))"
    by (simp add: example_defs)
  have h2: "NDEBUG exampleExternals \<or>
     (\<forall>OutBuf. getBufferForFile (fs exampleWorld) ''cache/B.swiftmodule'' = Inr OutBuf \<longrightarrow>
      status (fst (validateSerializedAST exampleExternals OutBuf)) = Valid \<longrightarrow>
      name (fst (validateSerializedAST exampleExternals OutBuf)) = fst (''B'', 0::nat))"
    by (simp add: example_defs)
  have led: "snd (validateSerializedAST exampleExternals ''modFoo'') =
     [\<lparr>Size = 1, Hash = 65, Path = ''a.h''\<rparr>] @ \<lparr>Size = 1, Hash = 66, Path = ''b.h''\<rparr>
       # [\<lparr>Size = 1, Hash = 88, Path = ''x.h''\<rparr>]"
    by (simp add: example_defs)
  have buf: "getBufferForFile (fs exampleWorld) ''cache/Foo.swiftmodule'' = Inr ''modFoo''"
    by (simp add: example_defs)
  have val: "status (fst (validateSerializedAST exampleExternals ''modFoo'')) = Valid"
    by (simp add: example_defs)
  have pre: "\<forall>In \<in> set [\<lparr>Size = 1, Hash = 65, Path = ''a.h''\<rparr>].
           \<exists>DepBuf. getBufferForFile (fs exampleWorld) (Path In) = Inr DepBuf \<and>
             getBufferSize DepBuf = Size In \<and> xxHash64 exampleExternals DepBuf = Hash In"
    by (simp add: example_defs getBufferSize_def)
  have bad: "\<not> (\<exists>DepBuf. getBufferForFile (fs exampleWorld) (Path \<lparr>Size = 1, Hash = 66, Path = ''b.h''\<rparr>) = Inr DepBuf \<and>
             getBufferSize DepBuf = Size \<lparr>Size = 1, Hash = 66, Path = ''b.h''\<rparr> \<and> xxHash64 exampleExternals DepBuf = Hash \<lparr>Size = 1, Hash = 66, Path = ''b.h''\<rparr>)"
    by (simp add: example_defs getBufferSize_def)
  have loop: "snd (swiftModuleIsUpToDate_loop exampleExternals ''cache/Foo.swiftmodule'' (snd (''Foo'', 0::nat))
       ([\<lparr>Size = 1, Hash = 65, Path = ''a.h''\<rparr>] @ [\<lparr>Size = 1, Hash = 66, Path = ''b.h''\<rparr>]) exampleWorld) =
     exampleWorld\<lparr>tracker := Some [(''a.h'', False), (''b.h'', False)]\<rparr>"
    by (simp add: example_defs getBufferSize_def getBufferOfDependency_def trackDependency_def
        addDependency_def)
  have miss: "swiftModuleIsUpToDate exampleExternals (''Foo'', 0) ''cache/Foo.swiftmodule'' exampleWorld =
     Returns (False, exampleWorld\<lparr>tracker := Some [(''a.h'', False), (''b.h'', False)]\<rparr>)"
    using swiftModuleIsUpToDate_iff_ledger_matches [OF h1, THEN conjunct2, THEN spec, THEN spec,
        THEN spec, THEN spec, THEN mp, THEN mp, THEN mp, THEN mp, THEN mp,
        OF buf val led pre bad] loop by simp
  have hit: "\<exists>w'. swiftModuleIsUpToDate exampleExternals (''B'', 0) ''cache/B.swiftmodule'' exampleWorld =
     Returns (True, w')"
    using swiftModuleIsUpToDate_iff_ledger_matches [OF h2, THEN conjunct1]
    by (auto simp: example_defs getBufferSize_def)
  have art: "fst (validateSerializedAST exampleExternals ''modFoo'') = \<lparr>name = ''Foo'', status = Valid\<rparr>"
    by (simp add: example_defs)
  from buf art led miss hit show ?thesis
    by simp
qed

text \<open>
  Claim C8, amended. When \<^verbatim>\<open>swiftModuleIsUpToDate\<close> returns, the file system and the log
  of effects are the ones it started with: it writes nothing and starts no rebuild. If
  the artifact cannot be read or is not valid, the tracker is unchanged. Otherwise the
  tracker, when there is one, has received the paths of the entries that were checked, in
  the order of the dependency list: the entries up to and including the first one that
  cannot be read or whose size or hash differs, and all entries if there is none. Entries
  behind the first such entry are not reported.
\<close>

theorem swiftModuleIsUpToDate_reports_checked_dependencies:
  assumes run: "swiftModuleIsUpToDate E ModuleID OutPath w = Returns (b, w')"
  shows "fs w' = fs w \<and> effects w' = effects w \<and>
         tracker w' =
           (case getBufferForFile (fs w) OutPath of
              Inl ec \<Rightarrow> tracker w
            | Inr OutBuf \<Rightarrow>
                if status (fst (validateSerializedAST E OutBuf)) \<noteq> Valid then tracker w
                else addDependencies (tracker w)
                       (map Path (checkedDeps E (fs w) (snd (validateSerializedAST E OutBuf)))))"
proof (cases "getBufferForFile (fs w) OutPath")
  case (Inl ec)
  with run show ?thesis
    by (simp add: swiftModuleIsUpToDate_def)
next
  case (Inr OutBuf)
  show ?thesis
  proof (cases "status (fst (validateSerializedAST E OutBuf)) = Valid")
    case False
    with run Inr show ?thesis
      by (simp add: swiftModuleIsUpToDate_def split: prod.splits)
  next
    case True
    with run Inr have "swiftModuleIsUpToDate_loop E OutPath (snd ModuleID)
        (snd (validateSerializedAST E OutBuf)) w = (b, w')"
      by (simp add: swiftModuleIsUpToDate_def split: prod.splits if_splits)
    then have "w' = snd (swiftModuleIsUpToDate_loop E OutPath (snd ModuleID)
        (snd (validateSerializedAST E OutBuf)) w)"
      by simp
    with Inr True show ?thesis
      by (simp add: loop_frame loop_tracker)
  qed
qed

theorem swiftModuleIsUpToDate_reports_checked_dependencies_witness:
  "swiftModuleIsUpToDate exampleExternals (''Foo'', 0) ''cache/Foo.swiftmodule'' exampleWorld =
     Returns (False, exampleWorld\<lparr>tracker := Some [(''a.h'', False), (''b.h'', False)]\<rparr>) \<and>
   fs (exampleWorld\<lparr>tracker := Some [(''a.h'', False), (''b.h'', False)]\<rparr>) = fs exampleWorld \<and>
   effects (exampleWorld\<lparr>tracker := Some [(''a.h'', False), (''b.h'', False)]\<rparr>) = effects exampleWorld \<and>
   checkedDeps exampleExternals (fs exampleWorld) (snd (validateSerializedAST exampleExternals ''modFoo'')) =
     [\<lparr>Size = 1, Hash = 65, Path = ''a.h''\<rparr>, \<lparr>Size = 1, Hash = 66, Path = ''b.h''\<rparr>] \<and>
   tracker (exampleWorld\<lparr>tracker := Some [(''a.h'', False), (''b.h'', False)]\<rparr>) =
     addDependencies (tracker exampleWorld)
       (map Path (checkedDeps exampleExternals (fs exampleWorld)
          (snd (validateSerializedAST exampleExternals ''modFoo''))))"
proof -
  have run: "swiftModuleIsUpToDate exampleExternals (''Foo'', 0) ''cache/Foo.swiftmodule'' exampleWorld =
     Returns (False, exampleWorld\<lparr>tracker := Some [(''a.h'', False), (''b.h'', False)]\<rparr>)"
    by (simp add: swiftModuleIsUpToDate_def getBufferOfDependency_def getBufferSize_def
        trackDependency_def addDependency_def example_defs)
  have buf: "getBufferForFile (fs exampleWorld) ''cache/Foo.swiftmodule'' = Inr ''modFoo''"
    by (simp add: example_defs)
  have valid: "status (fst (validateSerializedAST exampleExternals ''modFoo'')) = Valid"
    by (simp add: example_defs)
  have checked: "checkedDeps exampleExternals (fs exampleWorld)
      (snd (validateSerializedAST exampleExternals ''modFoo'')) =
     [\<lparr>Size = 1, Hash = 65, Path = ''a.h''\<rparr>, \<lparr>Size = 1, Hash = 66, Path = ''b.h''\<rparr>]"
    by (simp add: checkedDeps_def depIsUpToDate_def getBufferSize_def example_defs)
  from swiftModuleIsUpToDate_reports_checked_dependencies [OF run]
  have "fs (exampleWorld\<lparr>tracker := Some [(''a.h'', False), (''b.h'', False)]\<rparr>) = fs exampleWorld"
    and "effects (exampleWorld\<lparr>tracker := Some [(''a.h'', False), (''b.h'', False)]\<rparr>) = effects exampleWorld"
    and "tracker (exampleWorld\<lparr>tracker := Some [(''a.h'', False), (''b.h'', False)]\<rparr>) =
     addDependencies (tracker exampleWorld)
       (map Path (checkedDeps exampleExternals (fs exampleWorld)
          (snd (validateSerializedAST exampleExternals ''modFoo''))))"
    unfolding buf sum.case valid by simp_all
  with run checked show ?thesis
    by (intro conjI)
qed

text \<open>
  The wording of C8 before the amendment, that after a miss the tracker has received the
  whole dependency list, fails. The log of the tracker after a miss can lack entries of the dependency list. The cached
  module of the example lists \<open>a.h\<close>, \<open>b.h\<close> and \<open>x.h\<close>; \<open>b.h\<close> has changed. The check
  returns false, and the tracker has received \<open>a.h\<close> and \<open>b.h\<close> but not \<open>x.h\<close>.
\<close>

theorem tracker_misses_unchecked_dependency_counterexample:
  "getBufferForFile (fs exampleWorld) ''cache/Foo.swiftmodule'' = Inr ''modFoo'' \<and>
   map Path (snd (validateSerializedAST exampleExternals ''modFoo'')) = [''a.h'', ''b.h'', ''x.h''] \<and>
   tracker exampleWorld = Some [] \<and>
   swiftModuleIsUpToDate exampleExternals (''Foo'', 0) ''cache/Foo.swiftmodule'' exampleWorld =
     Returns (False, exampleWorld\<lparr>tracker := Some [(''a.h'', False), (''b.h'', False)]\<rparr>) \<and>
   (''x.h'', False) \<notin> set [(''a.h'', False), (''b.h'', False)]"
  by (simp add: swiftModuleIsUpToDate_def getBufferOfDependency_def getBufferSize_def
      trackDependency_def addDependency_def example_defs)

subsection \<open>The collection of dependencies\<close>

lemma trackDependency_eq: "trackDependency w p = w\<lparr>tracker := addDependencies (tracker w) [p]\<rparr>"
  by (simp add: trackDependency_def addDependencies_def addDependency_def split: option.splits)

lemma newSubDeps_subset: "set (newSubDeps A S) \<subseteq> set S"
  by (induction S arbitrary: A) auto



lemma SubDeps_eq:
  "collectDepsForSerialization_SubDeps S (A, D, w) =
     (A \<union> Path ` set S, D @ newSubDeps A S,
      w\<lparr>tracker := addDependencies (tracker w) (map Path (newSubDeps A S))\<rparr>)"
  by (induction S arbitrary: A D w) (auto simp: trackDependency_eq)

lemma trackNew_simps [simp]:
  "fs (trackNew w A n) = fs w"
  "diags (trackNew w A n) = diags w"
  "effects (trackNew w A n) = effects w"
  "tracker (trackNew w A n) = addDependencies (tracker w) (if n \<notin> A then [n] else [])"
  by (simp_all add: trackNew_def)

lemma collect_loop_Cons:
  "collectDepsForSerialization_loop E InPath C L (n # Ns) (A, D, w) =
     (case getBufferForFile (fs w) n of
        Inl ec \<Rightarrow>
          (True, D, (trackNew w A n)\<lparr>diags := diagnose (diags w) L
             (missing_dependency_of_parseable_module_interface n InPath ec)\<rparr>)
      | Inr buf \<Rightarrow>
          if isCachedSwiftModule E C n
          then if status (fst (validateSerializedAST E buf)) \<noteq> Valid
               then (True, D @ [dependencyOf E n buf],
                     (trackNew w A n)\<lparr>diags := diagnose (diags w) L
                        (error_extracting_dependencies_from_cached_module n)\<rparr>)
               else collectDepsForSerialization_loop E InPath C L Ns
                      (insert n A \<union> Path ` set (snd (validateSerializedAST E buf)),
                       D @ dependencyOf E n buf
                         # newSubDeps (insert n A) (snd (validateSerializedAST E buf)),
                       (trackNew w A n)\<lparr>tracker := addDependencies (tracker (trackNew w A n))
                          (map Path (newSubDeps (insert n A) (snd (validateSerializedAST E buf))))\<rparr>)
          else collectDepsForSerialization_loop E InPath C L Ns
                 (insert n A, D @ [dependencyOf E n buf], trackNew w A n))"
  by (auto simp: Let_def getBufferOfDependency_def isCachedSwiftModule_def dependencyOf_def
      trackNew_def SubDeps_eq trackDependency_eq split: sum.splits prod.splits)


declare collectDepsForSerialization_loop.simps(2) [simp del]

lemma collect_loop_frame:
  "collectDepsForSerialization_loop E InPath C L Ns (A, D, w) = (err, D', w') \<Longrightarrow>
   fs w' = fs w \<and> effects w' = effects w"
proof (induction Ns arbitrary: A D w)
  case Nil
  then show ?case by simp
next
  case (Cons n Ns)
  from Cons.prems show ?case
    by (auto simp: collect_loop_Cons split: sum.splits if_splits dest!: Cons.IH)
qed

lemma collect_loop_extends:
  "collectDepsForSerialization_loop E InPath C L Ns (A, D, w) = (err, D', w') \<Longrightarrow>
   \<exists>ext ps. D' = D @ ext \<and> tracker w' = addDependencies (tracker w) ps"
proof (induction Ns arbitrary: A D w)
  case Nil
  then show ?case by (auto intro: exI [of _ "[]"])
next
  case (Cons n Ns)
  from Cons.prems show ?case
    by (auto simp: collect_loop_Cons split: sum.splits if_splits dest!: Cons.IH)
qed

lemma collect_loop_error_diagnosed:
  "collectDepsForSerialization_loop E InPath C L Ns (A, D, w) = (True, D', w') \<Longrightarrow>
   hadAnyError (diags w') \<and> diagnosed (diags w') \<noteq> [] \<and>
   fst (last (diagnosed (diags w'))) = L \<and>
   isDependencyError (snd (last (diagnosed (diags w'))))"
proof (induction Ns arbitrary: A D w)
  case Nil
  then show ?case by simp
next
  case (Cons n Ns)
  from Cons.prems show ?case
    by (auto simp: collect_loop_Cons diagnose_def isDependencyError_def
        split: sum.splits if_splits dest!: Cons.IH)
qed

lemma collect_loop_fails:
  "d \<in> set Ns \<Longrightarrow> cannotBeCollected E (fs w) C d \<Longrightarrow>
   fst (collectDepsForSerialization_loop E InPath C L Ns (A, D, w))"
proof (induction Ns arbitrary: A D w)
  case Nil
  then show ?case by simp
next
  case (Cons n Ns)
  show ?case
  proof (cases "d = n")
    case True
    with Cons.prems(2) show ?thesis
      by (auto simp: collect_loop_Cons cannotBeCollected_def split: sum.splits)
  next
    case False
    with Cons.prems have "d \<in> set Ns" by simp
    then show ?thesis
      using Cons.prems(2) Cons.IH
      by (auto simp: collect_loop_Cons split: sum.splits)
  qed
qed

lemma collect_loop_paths:
  "collectDepsForSerialization_loop E InPath C L Ns (A, D, w) = (False, D', w') \<Longrightarrow>
   set Ns \<subseteq> Path ` set D'"
proof (induction Ns arbitrary: A D w)
  case Nil
  then show ?case by simp
next
  case (Cons n Ns)
  from Cons.prems obtain A1 D1 w1 where
    rec: "collectDepsForSerialization_loop E InPath C L Ns (A1, D1, w1) = (False, D', w')"
    and n: "n \<in> Path ` set D1"
    by (auto simp: collect_loop_Cons dependencyOf_def split: sum.splits if_splits)
  from collect_loop_extends [OF rec] n have "n \<in> Path ` set D'"
    by auto
  with Cons.IH [OF rec] show ?case
    by simp
qed




lemma collect_loop_last:
  "collectDepsForSerialization_loop E InPath C L (Ns @ [n]) (A, D, w) = (False, D', w') \<Longrightarrow>
   \<exists>buf pre post. getBufferForFile (fs w) n = Inr buf \<and>
      D' = D @ pre @ dependencyOf E n buf # post \<and> set Ns \<subseteq> Path ` set pre \<and>
      (Ns = [] \<longrightarrow> pre = [])"
proof (induction Ns arbitrary: A D w)
  case Nil
  then obtain buf where buf: "getBufferForFile (fs w) n = Inr buf"
    by (auto simp: collect_loop_Cons split: sum.splits)
  with Nil have "\<exists>post. D' = D @ [] @ dependencyOf E n buf # post"
    by (auto simp: collect_loop_Cons split: if_splits)
  with buf show ?case by auto
next
  case (Cons m Ns)
  from Cons.prems obtain mbuf A1 ext w1 where
    rec: "collectDepsForSerialization_loop E InPath C L (Ns @ [n])
            (A1, D @ dependencyOf E m mbuf # ext, w1) = (False, D', w')"
    and w1: "fs w1 = fs w"
    by (auto simp: collect_loop_Cons split: sum.splits if_splits)
  from Cons.IH [OF rec] w1 obtain buf pre post where
    *: "getBufferForFile (fs w) n = Inr buf"
       "D' = (D @ dependencyOf E m mbuf # ext) @ pre @ dependencyOf E n buf # post"
       "set Ns \<subseteq> Path ` set pre"
    by auto
  then have "D' = D @ (dependencyOf E m mbuf # ext @ pre) @ dependencyOf E n buf # post"
    and "set (m # Ns) \<subseteq> Path ` set (dependencyOf E m mbuf # ext @ pre)"
    by (auto simp: dependencyOf_def)
  with *(1) show ?case
    by (metis list.distinct(1))
qed

lemma collect_loop_first:
  "collectDepsForSerialization_loop E InPath C L Ns (A, [], w) = (False, D', w') \<Longrightarrow>
   map Path (take 1 D') = take 1 Ns"
proof (cases Ns)
  case Nil
  assume "collectDepsForSerialization_loop E InPath C L Ns (A, [], w) = (False, D', w')"
  with Nil show ?thesis by simp
next
  case (Cons n Ns')
  assume "collectDepsForSerialization_loop E InPath C L Ns (A, [], w) = (False, D', w')"
  with Cons obtain buf A1 ext w1 where
    rec: "collectDepsForSerialization_loop E InPath C L Ns'
            (A1, dependencyOf E n buf # ext, w1) = (False, D', w')"
    by (auto simp: collect_loop_Cons split: sum.splits if_splits)
  from collect_loop_extends [OF rec] Cons show ?thesis
    by (auto simp: dependencyOf_def)
qed

lemma collect_frame:
  "collectDepsForSerialization E DTDeps InPath C D L w = (err, D', w') \<Longrightarrow>
   fs w' = fs w \<and> effects w' = effects w"
  unfolding collectDepsForSerialization_def Let_def by (rule collect_loop_frame)

lemmas run_defs =
  collectDepsForSerialization_def collect_loop_Cons isCachedSwiftModule_def dependencyOf_def
  trackNew_def trackDependency_def addDependency_def addDependencies_def getBufferSize_def
  diagnose_def suffix_to_prefix





lemmas header_defs =
  extractSwiftInterfaceVersionAndArgs_def getFileOrSTDIN_def
  getSwiftInterfaceFormatVersionRegex_def getSwiftInterfaceModuleFlagsRegex_def
  matchFormatVersionLine_def afterKey_def isVersionChar_def
  SWIFT_INTERFACE_FORMAT_VERSION_KEY_def SWIFT_MODULE_FLAGS_KEY_def List.map_filter_def
  asMajorVersion_def InterfaceFormatVersion_def

lemmas build_defs =
  buildSwiftModuleFromSwiftInterface_def buildSwiftModuleFromSwiftInterface_body_def
  buildSwiftModuleFromSwiftInterface_configure_def buildSwiftModuleFromSwiftInterface_compile_def
  buildSwiftModuleFromSwiftInterface_serialize_def createModuleCacheDirectory_def afterStep_def
  diagnoseAll_def

lemma serialize_stage_effects:
  assumes "buildSwiftModuleFromSwiftInterface_serialize E DiagLoc SubInvocation InPath OutPath C w
             = (rs, err, w')"
  shows "\<exists>cerr Deps w4.
     collectDepsForSerialization E (SubInstance_getDependencies E SubInvocation (fs w)) InPath C []
       DiagLoc w = (cerr, Deps, w4) \<and>
     (if cerr then rs \<and> err \<and> w' = w4
      else effects w' = effects w @ [performSILProcessing, serialize OutPath Deps] \<or>
           effects w' = effects w @ [performSILProcessing])"
proof -
  obtain cerr Deps w4 where c:
    "collectDepsForSerialization E (SubInstance_getDependencies E SubInvocation (fs w)) InPath C []
       DiagLoc w = (cerr, Deps, w4)"
    by (metis prod_cases3)
  from collect_frame [OF c] have "effects w4 = effects w" by simp
  with assms c show ?thesis
    by (auto simp: buildSwiftModuleFromSwiftInterface_serialize_def Let_def afterStep_def
        split: prod.splits if_splits)
qed

text \<open>
  Claim C4, amended. When the last part of a rebuild succeeds, every rebuild that got as
  far as this part returns success, and the dependency list collected, which is the list
  given to the serialization if the serialization ran, contains an entry for the
  interface file \<open>InPath\<close> with the size and the hash of its present content, whether or
  not the sub-compilation read the file. The entry comes after an entry for every
  dependency the sub-compilation read. The first entry of the list is the one of the
  first dependency read, and is the entry of the interface file when the sub-compilation
  read nothing.
\<close>

theorem serialized_ledger_contains_interface:
  assumes ok: "buildSwiftModuleFromSwiftInterface_serialize E DiagLoc SubInvocation InPath OutPath
                 ModuleCachePath w = (True, False, w')"
  shows "\<exists>Deps buf pre post.
     getBufferForFile (fs w) InPath = Inr buf \<and>
     Deps = pre @ \<lparr>Size = getBufferSize buf, Hash = xxHash64 E buf, Path = InPath\<rparr> # post \<and>
     set (SubInstance_getDependencies E SubInvocation (fs w)) \<subseteq> Path ` set pre \<and>
     (SubInstance_getDependencies E SubInvocation (fs w) = [] \<longrightarrow> pre = []) \<and>
     map Path (take 1 Deps) = take 1 (SubInstance_getDependencies E SubInvocation (fs w) @ [InPath]) \<and>
     (effects w' = effects w @ [performSILProcessing, serialize OutPath Deps] \<or>
      effects w' = effects w @ [performSILProcessing]) \<and>
     (\<forall>SubInvocation0 w0.
        buildSwiftModuleFromSwiftInterface_body E DiagLoc SubInvocation0 ModuleCachePath w0 =
          buildSwiftModuleFromSwiftInterface_serialize E DiagLoc SubInvocation InPath OutPath
            ModuleCachePath w \<longrightarrow>
        buildSwiftModuleFromSwiftInterface E DiagLoc SubInvocation0 ModuleCachePath w0 = (False, w'))"
proof -
  let ?DT = "SubInstance_getDependencies E SubInvocation (fs w)"
  have whole: "\<forall>SubInvocation0 w0.
        buildSwiftModuleFromSwiftInterface_body E DiagLoc SubInvocation0 ModuleCachePath w0 =
          buildSwiftModuleFromSwiftInterface_serialize E DiagLoc SubInvocation InPath OutPath
            ModuleCachePath w \<longrightarrow>
        buildSwiftModuleFromSwiftInterface E DiagLoc SubInvocation0 ModuleCachePath w0 = (False, w')"
    using ok by (simp add: buildSwiftModuleFromSwiftInterface_def)
  from serialize_stage_effects [OF ok] obtain Deps w4 where
    c: "collectDepsForSerialization E ?DT InPath ModuleCachePath [] DiagLoc w = (False, Deps, w4)"
    and e: "effects w' = effects w @ [performSILProcessing, serialize OutPath Deps] \<or>
            effects w' = effects w @ [performSILProcessing]"
    by (auto split: if_splits)
  from c have run: "collectDepsForSerialization_loop E InPath ModuleCachePath DiagLoc (?DT @ [InPath])
      ({}, [], w) = (False, Deps, w4)"
    by (simp add: collectDepsForSerialization_def)
  from collect_loop_last [OF run] obtain buf pre post where
    "getBufferForFile (fs w) InPath = Inr buf"
    "Deps = pre @ dependencyOf E InPath buf # post"
    "set ?DT \<subseteq> Path ` set pre" "?DT = [] \<longrightarrow> pre = []"
    by auto
  with collect_loop_first [OF run] e whole show ?thesis
    unfolding dependencyOf_def by blast
qed

theorem serialized_ledger_contains_interface_witness:
  "buildSwiftModuleFromSwiftInterface_serialize exampleExternals 0
     (exampleSubInvocation\<lparr>inv_OptMode := ForSpeed\<rparr>) ''Foo.swiftinterface''
     ''cache/Foo-KEY.swiftmodule'' ''cache'' exampleWorldCompiled =
   (True, False,
    exampleWorldCompiled\<lparr>tracker := Some [(''a.h'', False), (''Foo.swiftinterface'', False)],
       effects := effects exampleWorldCompiled @ [performSILProcessing,
         serialize ''cache/Foo-KEY.swiftmodule''
           [\<lparr>Size = 1, Hash = 65, Path = ''a.h''\<rparr>,
            \<lparr>Size = 79, Hash = 6950, Path = ''Foo.swiftinterface''\<rparr>]]\<rparr>) \<and>
   buildSwiftModuleFromSwiftInterface_body exampleExternals 0 exampleSubInvocation ''cache''
       exampleWorld =
     buildSwiftModuleFromSwiftInterface_serialize exampleExternals 0
       (exampleSubInvocation\<lparr>inv_OptMode := ForSpeed\<rparr>) ''Foo.swiftinterface''
       ''cache/Foo-KEY.swiftmodule'' ''cache'' exampleWorldCompiled \<and>
   buildSwiftModuleFromSwiftInterface exampleExternals 0 exampleSubInvocation ''cache'' exampleWorld =
   (False,
    exampleWorldCompiled\<lparr>tracker := Some [(''a.h'', False), (''Foo.swiftinterface'', False)],
       effects := effects exampleWorldCompiled @ [performSILProcessing,
         serialize ''cache/Foo-KEY.swiftmodule''
           [\<lparr>Size = 1, Hash = 65, Path = ''a.h''\<rparr>,
            \<lparr>Size = 79, Hash = 6950, Path = ''Foo.swiftinterface''\<rparr>]]\<rparr>) \<and>
   (\<exists>Deps buf pre post.
      getBufferForFile (fs exampleWorldCompiled) ''Foo.swiftinterface'' = Inr buf \<and>
      Deps = pre @ \<lparr>Size = getBufferSize buf, Hash = xxHash64 exampleExternals buf,
                     Path = ''Foo.swiftinterface''\<rparr> # post \<and>
      set [''a.h''] \<subseteq> Path ` set pre \<and>
      map Path (take 1 Deps) = take 1 ([''a.h''] @ [''Foo.swiftinterface'']) \<and>
      [performSILProcessing,
       serialize ''cache/Foo-KEY.swiftmodule''
         [\<lparr>Size = 1, Hash = 65, Path = ''a.h''\<rparr>,
          \<lparr>Size = 79, Hash = 6950, Path = ''Foo.swiftinterface''\<rparr>]] =
      [performSILProcessing, serialize ''cache/Foo-KEY.swiftmodule'' Deps]) \<and>
   SubInstance_getDependencies (exampleExternalsReading [])
     (exampleSubInvocation\<lparr>inv_OptMode := ForSpeed\<rparr>) (fs exampleWorld) = [] \<and>
   buildSwiftModuleFromSwiftInterface_serialize (exampleExternalsReading []) 0
     (exampleSubInvocation\<lparr>inv_OptMode := ForSpeed\<rparr>) ''Foo.swiftinterface''
     ''cache/Foo-KEY.swiftmodule'' ''cache'' exampleWorld =
   (True, False,
    exampleWorld\<lparr>tracker := Some [(''Foo.swiftinterface'', False)],
       effects := [performSILProcessing,
         serialize ''cache/Foo-KEY.swiftmodule''
           [\<lparr>Size = 79, Hash = 6950, Path = ''Foo.swiftinterface''\<rparr>]]\<rparr>) \<and>
   (\<exists>Deps buf post.
      getBufferForFile (fs exampleWorld) ''Foo.swiftinterface'' = Inr buf \<and>
      Deps = \<lparr>Size = getBufferSize buf, Hash = xxHash64 (exampleExternalsReading []) buf,
               Path = ''Foo.swiftinterface''\<rparr> # post)"
proof -
  let ?inv = "exampleSubInvocation\<lparr>inv_OptMode := ForSpeed\<rparr>"
  let ?w' = "exampleWorldCompiled\<lparr>tracker := Some [(''a.h'', False), (''Foo.swiftinterface'', False)],
       effects := effects exampleWorldCompiled @ [performSILProcessing,
         serialize ''cache/Foo-KEY.swiftmodule''
           [\<lparr>Size = 1, Hash = 65, Path = ''a.h''\<rparr>,
            \<lparr>Size = 79, Hash = 6950, Path = ''Foo.swiftinterface''\<rparr>]]\<rparr>"
  have run: "buildSwiftModuleFromSwiftInterface_serialize exampleExternals 0 ?inv
      ''Foo.swiftinterface'' ''cache/Foo-KEY.swiftmodule'' ''cache'' exampleWorldCompiled =
      (True, False, ?w')"
    by (simp add: build_defs run_defs example_defs)
  have reach: "buildSwiftModuleFromSwiftInterface_body exampleExternals 0 exampleSubInvocation
      ''cache'' exampleWorld =
     buildSwiftModuleFromSwiftInterface_serialize exampleExternals 0 ?inv ''Foo.swiftinterface''
       ''cache/Foo-KEY.swiftmodule'' ''cache'' exampleWorldCompiled"
    by (simp add: buildSwiftModuleFromSwiftInterface_body_def
        buildSwiftModuleFromSwiftInterface_configure_def
        buildSwiftModuleFromSwiftInterface_compile_def createModuleCacheDirectory_def
        afterStep_def header_defs diagnoseAll_def example_defs Let_def)
  have deps: "SubInstance_getDependencies exampleExternals ?inv (fs exampleWorldCompiled) = [''a.h'']"
    by (simp add: example_defs)
  have eff: "effects ?w' = effects exampleWorldCompiled @ [performSILProcessing,
         serialize ''cache/Foo-KEY.swiftmodule''
           [\<lparr>Size = 1, Hash = 65, Path = ''a.h''\<rparr>,
            \<lparr>Size = 79, Hash = 6950, Path = ''Foo.swiftinterface''\<rparr>]]"
    by simp
  from serialized_ledger_contains_interface [OF run]
  obtain Deps buf pre post where
    c: "getBufferForFile (fs exampleWorldCompiled) ''Foo.swiftinterface'' = Inr buf"
       "Deps = pre @ \<lparr>Size = getBufferSize buf, Hash = xxHash64 exampleExternals buf,
                     Path = ''Foo.swiftinterface''\<rparr> # post"
       "set (SubInstance_getDependencies exampleExternals ?inv (fs exampleWorldCompiled))
          \<subseteq> Path ` set pre"
       "map Path (take 1 Deps) =
          take 1 (SubInstance_getDependencies exampleExternals ?inv (fs exampleWorldCompiled)
             @ [''Foo.swiftinterface''])"
    and e: "effects ?w' =
          effects exampleWorldCompiled @ [performSILProcessing, serialize ''cache/Foo-KEY.swiftmodule'' Deps] \<or>
        effects ?w' = effects exampleWorldCompiled @ [performSILProcessing]"
    and all: "\<forall>SubInvocation0 w0.
        buildSwiftModuleFromSwiftInterface_body exampleExternals 0 SubInvocation0 ''cache'' w0 =
          buildSwiftModuleFromSwiftInterface_serialize exampleExternals 0 ?inv ''Foo.swiftinterface''
            ''cache/Foo-KEY.swiftmodule'' ''cache'' exampleWorldCompiled \<longrightarrow>
        buildSwiftModuleFromSwiftInterface exampleExternals 0 SubInvocation0 ''cache'' w0 = (False, ?w')"
    by (elim exE conjE) (rule that; assumption)
  from e have e': "[performSILProcessing,
       serialize ''cache/Foo-KEY.swiftmodule''
         [\<lparr>Size = 1, Hash = 65, Path = ''a.h''\<rparr>,
          \<lparr>Size = 79, Hash = 6950, Path = ''Foo.swiftinterface''\<rparr>]] =
      [performSILProcessing, serialize ''cache/Foo-KEY.swiftmodule'' Deps]"
    unfolding eff by simp
  have ledger: "\<exists>Deps buf pre post.
      getBufferForFile (fs exampleWorldCompiled) ''Foo.swiftinterface'' = Inr buf \<and>
      Deps = pre @ \<lparr>Size = getBufferSize buf, Hash = xxHash64 exampleExternals buf,
                     Path = ''Foo.swiftinterface''\<rparr> # post \<and>
      set [''a.h''] \<subseteq> Path ` set pre \<and>
      map Path (take 1 Deps) = take 1 ([''a.h''] @ [''Foo.swiftinterface'']) \<and>
      [performSILProcessing,
       serialize ''cache/Foo-KEY.swiftmodule''
         [\<lparr>Size = 1, Hash = 65, Path = ''a.h''\<rparr>,
          \<lparr>Size = 79, Hash = 6950, Path = ''Foo.swiftinterface''\<rparr>]] =
      [performSILProcessing, serialize ''cache/Foo-KEY.swiftmodule'' Deps]"
    using c(1,2) c(3,4) [unfolded deps] e'
    by (intro exI [of _ Deps] exI [of _ buf] exI [of _ pre] exI [of _ post] conjI)
  note whole = all [THEN spec, THEN spec, THEN mp, OF reach]
  have deps0: "SubInstance_getDependencies (exampleExternalsReading []) ?inv (fs exampleWorld) = []"
    by (simp add: example_defs)
  have run0: "buildSwiftModuleFromSwiftInterface_serialize (exampleExternalsReading []) 0 ?inv
      ''Foo.swiftinterface'' ''cache/Foo-KEY.swiftmodule'' ''cache'' exampleWorld =
      (True, False,
       exampleWorld\<lparr>tracker := Some [(''Foo.swiftinterface'', False)],
         effects := [performSILProcessing,
           serialize ''cache/Foo-KEY.swiftmodule''
             [\<lparr>Size = 79, Hash = 6950, Path = ''Foo.swiftinterface''\<rparr>]]\<rparr>)"
    by (simp add: build_defs run_defs example_defs)
  from serialized_ledger_contains_interface [OF run0]
  obtain Deps0 buf0 pre0 post0 where
    c0: "getBufferForFile (fs exampleWorld) ''Foo.swiftinterface'' = Inr buf0"
        "Deps0 = pre0 @ \<lparr>Size = getBufferSize buf0,
                    Hash = xxHash64 (exampleExternalsReading []) buf0,
                    Path = ''Foo.swiftinterface''\<rparr> # post0"
        "SubInstance_getDependencies (exampleExternalsReading []) ?inv (fs exampleWorld) = []
           \<longrightarrow> pre0 = []"
    by (elim exE conjE) (rule that; assumption)
  from c0(3) [THEN mp, OF deps0] c0(2)
  have "Deps0 = \<lparr>Size = getBufferSize buf0, Hash = xxHash64 (exampleExternalsReading []) buf0,
               Path = ''Foo.swiftinterface''\<rparr> # post0"
    by simp
  with c0(1) have first: "\<exists>Deps buf post.
      getBufferForFile (fs exampleWorld) ''Foo.swiftinterface'' = Inr buf \<and>
      Deps = \<lparr>Size = getBufferSize buf, Hash = xxHash64 (exampleExternalsReading []) buf,
               Path = ''Foo.swiftinterface''\<rparr> # post"
    by (intro exI [of _ Deps0] exI [of _ buf0] exI [of _ post0] conjI)
  from run reach whole ledger deps0 run0 first show ?thesis
    by (intro conjI)
qed

text \<open>
  The wording of C4 before the amendment, that the interface file is the first entry of
  the dependency list, fails. In the example the sub-compilation
  reads \<open>a.h\<close>; the rebuild succeeds and serializes the module with a dependency list whose
  first entry is \<open>a.h\<close> and whose second entry is the interface file.
\<close>

theorem interface_entry_is_not_first_counterexample:
  "inv_Inputs exampleSubInvocation = [''Foo.swiftinterface''] \<and>
   buildSwiftModuleFromSwiftInterface exampleExternals 0 exampleSubInvocation ''cache'' exampleWorld =
     (False,
      exampleWorld\<lparr>tracker := Some [(''a.h'', False), (''Foo.swiftinterface'', False)],
        effects := [create_directory ''cache'',
          CompilerInvocation_parseArgs [''-module-name'', ''Foo''],
          CompilerInstance_setup, performSema, performSILGeneration, performSILProcessing,
          serialize ''cache/Foo-KEY.swiftmodule''
            [\<lparr>Size = 1, Hash = 65, Path = ''a.h''\<rparr>,
             \<lparr>Size = 79, Hash = 6950, Path = ''Foo.swiftinterface''\<rparr>]]\<rparr>) \<and>
   Path (hd [\<lparr>Size = 1, Hash = 65, Path = ''a.h''\<rparr>,
             \<lparr>Size = 79, Hash = 6950, Path = ''Foo.swiftinterface''\<rparr>]) \<noteq> ''Foo.swiftinterface''"
  by (simp add: build_defs header_defs run_defs example_defs)

text \<open>
  Claim C5. Let \<open>d\<close> be one of the dependencies the collection reads: one read by the
  sub-compilation, or the interface file. If \<open>d\<close> cannot be read, or \<open>d\<close> is a cached module
  (its type is \<^verbatim>\<open>TY_SwiftModuleFile\<close>, its path starts with the non-empty module cache
  path) that \<^verbatim>\<open>validateSerializedAST\<close> does not report valid, then
  \<^verbatim>\<open>collectDepsForSerialization\<close> returns its error value and the last part of the rebuild
  ends with \<open>SubError\<close> set. The last diagnostic emitted is one of the two of the
  collection, and the log of effects is unchanged: the module is neither optimized nor
  serialized, so no dependency list reaches a file. Every rebuild that gets as far as this
  part returns failure.
\<close>

theorem unreadable_dependency_fails_rebuild:
  assumes d: "d \<in> set (SubInstance_getDependencies E SubInvocation (fs w) @ [InPath])"
    and bad: "(\<exists>ec. getBufferForFile (fs w) d = Inl ec) \<or>
              (ModuleCachePath \<noteq> [] \<and>
               lookupTypeForExtension E (path_extension E d) = TY_SwiftModuleFile \<and>
               prefix ModuleCachePath d \<and>
               (\<exists>buf. getBufferForFile (fs w) d = Inr buf \<and>
                  status (fst (validateSerializedAST E buf)) \<noteq> Valid))"
  shows "\<exists>Deps w'.
     collectDepsForSerialization E (SubInstance_getDependencies E SubInvocation (fs w)) InPath
       ModuleCachePath [] DiagLoc w = (True, Deps, w') \<and>
     buildSwiftModuleFromSwiftInterface_serialize E DiagLoc SubInvocation InPath OutPath
       ModuleCachePath w = (True, True, w') \<and>
     fs w' = fs w \<and> effects w' = effects w \<and> hadAnyError (diags w') \<and>
     (\<exists>p q ec. last (diagnosed (diags w')) =
                 (DiagLoc, missing_dependency_of_parseable_module_interface p q ec) \<or>
               last (diagnosed (diags w')) =
                 (DiagLoc, error_extracting_dependencies_from_cached_module p)) \<and>
     (\<forall>SubInvocation0 w0.
        buildSwiftModuleFromSwiftInterface_body E DiagLoc SubInvocation0 ModuleCachePath w0 =
          buildSwiftModuleFromSwiftInterface_serialize E DiagLoc SubInvocation InPath OutPath
            ModuleCachePath w \<longrightarrow>
        buildSwiftModuleFromSwiftInterface E DiagLoc SubInvocation0 ModuleCachePath w0 = (True, w'))"
proof -
  let ?DT = "SubInstance_getDependencies E SubInvocation (fs w)"
  from bad have c: "cannotBeCollected E (fs w) ModuleCachePath d"
    by (auto simp: cannotBeCollected_def isCachedSwiftModule_def)
  obtain cerr Deps w' where
    r: "collectDepsForSerialization E ?DT InPath ModuleCachePath [] DiagLoc w = (cerr, Deps, w')"
    by (metis prod_cases3)
  then have run: "collectDepsForSerialization_loop E InPath ModuleCachePath DiagLoc (?DT @ [InPath])
      ({}, [], w) = (cerr, Deps, w')"
    by (simp add: collectDepsForSerialization_def)
  from collect_loop_fails [OF d c, of InPath DiagLoc "{}" "[]"] run have cerr: cerr
    by simp
  from collect_loop_error_diagnosed [OF run [unfolded eqTrueI [OF cerr]]]
  have dg: "hadAnyError (diags w')" "diagnosed (diags w') \<noteq> []"
    "fst (last (diagnosed (diags w'))) = DiagLoc"
    "isDependencyError (snd (last (diagnosed (diags w'))))"
    by auto
  have kind: "\<exists>p q ec. last (diagnosed (diags w')) =
                 (DiagLoc, missing_dependency_of_parseable_module_interface p q ec) \<or>
               last (diagnosed (diags w')) =
                 (DiagLoc, error_extracting_dependencies_from_cached_module p)"
    using dg(3,4)
    by (cases "last (diagnosed (diags w'))"; cases "snd (last (diagnosed (diags w')))")
       (auto simp: isDependencyError_def)
  have stage: "buildSwiftModuleFromSwiftInterface_serialize E DiagLoc SubInvocation InPath OutPath
       ModuleCachePath w = (True, True, w')"
    using r cerr by (simp add: buildSwiftModuleFromSwiftInterface_serialize_def)
  from r cerr have r': "collectDepsForSerialization E ?DT InPath ModuleCachePath [] DiagLoc w
      = (True, Deps, w')"
    by simp
  have whole: "\<forall>SubInvocation0 w0.
        buildSwiftModuleFromSwiftInterface_body E DiagLoc SubInvocation0 ModuleCachePath w0 =
          buildSwiftModuleFromSwiftInterface_serialize E DiagLoc SubInvocation InPath OutPath
            ModuleCachePath w \<longrightarrow>
        buildSwiftModuleFromSwiftInterface E DiagLoc SubInvocation0 ModuleCachePath w0 = (True, w')"
    using stage by (simp add: buildSwiftModuleFromSwiftInterface_def)
  show ?thesis
    by (rule exI [of _ Deps], rule exI [of _ w'])
       (use collect_frame [OF r] r' stage dg(1) kind whole in simp)
qed

theorem unreadable_dependency_fails_rebuild_witness:
  "''gone.h'' \<in> set (SubInstance_getDependencies (exampleExternalsReading [''gone.h'', ''a.h''])
       (exampleSubInvocation\<lparr>inv_OptMode := ForSpeed\<rparr>) (fs exampleWorldCompiled)
       @ [''Foo.swiftinterface'']) \<and>
   getBufferForFile (fs exampleWorldCompiled) ''gone.h'' = Inl no_such_file_or_directory \<and>
   buildSwiftModuleFromSwiftInterface_body (exampleExternalsReading [''gone.h'', ''a.h'']) 0
       exampleSubInvocation ''cache'' exampleWorld =
     buildSwiftModuleFromSwiftInterface_serialize (exampleExternalsReading [''gone.h'', ''a.h'']) 0
       (exampleSubInvocation\<lparr>inv_OptMode := ForSpeed\<rparr>) ''Foo.swiftinterface''
       ''cache/Foo-KEY.swiftmodule'' ''cache'' exampleWorldCompiled \<and>
   (\<exists>w'.
      buildSwiftModuleFromSwiftInterface (exampleExternalsReading [''gone.h'', ''a.h'']) 0
        exampleSubInvocation ''cache'' exampleWorld = (True, w') \<and>
      effects w' = effects exampleWorldCompiled \<and> hadAnyError (diags w')) \<and>
   ''cache/Bad.swiftmodule'' \<in> set (SubInstance_getDependencies
       (exampleExternalsReading [''a.h'', ''cache/Bad.swiftmodule''])
       exampleSubInvocation (fs exampleWorld) @ [''Foo.swiftinterface'']) \<and>
   getBufferForFile (fs exampleWorld) ''cache/Bad.swiftmodule'' = Inr ''junk'' \<and>
   status (fst (validateSerializedAST (exampleExternalsReading [''a.h'', ''cache/Bad.swiftmodule''])
     ''junk'')) = Malformed \<and>
   (\<exists>w'.
      buildSwiftModuleFromSwiftInterface_serialize
        (exampleExternalsReading [''a.h'', ''cache/Bad.swiftmodule'']) 0
        exampleSubInvocation ''Foo.swiftinterface'' ''cache/Foo-KEY.swiftmodule'' ''cache''
        exampleWorld = (True, True, w') \<and>
      effects w' = effects exampleWorld \<and> hadAnyError (diags w'))"
proof -
  let ?E1 = "exampleExternalsReading [''gone.h'', ''a.h'']"
  let ?E2 = "exampleExternalsReading [''a.h'', ''cache/Bad.swiftmodule'']"
  let ?inv = "exampleSubInvocation\<lparr>inv_OptMode := ForSpeed\<rparr>"
  have d1: "''gone.h'' \<in> set (SubInstance_getDependencies ?E1 ?inv (fs exampleWorldCompiled)
       @ [''Foo.swiftinterface''])"
    by (simp add: example_defs)
  have g: "getBufferForFile (fs exampleWorldCompiled) ''gone.h'' = Inl no_such_file_or_directory"
    by (simp add: example_defs)
  then have bad1: "(\<exists>ec. getBufferForFile (fs exampleWorldCompiled) ''gone.h'' = Inl ec) \<or>
      (''cache'' \<noteq> [] \<and>
       lookupTypeForExtension ?E1 (path_extension ?E1 ''gone.h'') = TY_SwiftModuleFile \<and>
       prefix ''cache'' ''gone.h'' \<and>
       (\<exists>buf. getBufferForFile (fs exampleWorldCompiled) ''gone.h'' = Inr buf \<and>
          status (fst (validateSerializedAST ?E1 buf)) \<noteq> Valid))"
    by blast
  have reach: "buildSwiftModuleFromSwiftInterface_body ?E1 0 exampleSubInvocation ''cache'' exampleWorld =
     buildSwiftModuleFromSwiftInterface_serialize ?E1 0 ?inv ''Foo.swiftinterface''
       ''cache/Foo-KEY.swiftmodule'' ''cache'' exampleWorldCompiled"
    by (simp add: buildSwiftModuleFromSwiftInterface_body_def
        buildSwiftModuleFromSwiftInterface_configure_def
        buildSwiftModuleFromSwiftInterface_compile_def createModuleCacheDirectory_def
        afterStep_def header_defs diagnoseAll_def example_defs Let_def)
  have d2: "''cache/Bad.swiftmodule'' \<in> set (SubInstance_getDependencies ?E2
       exampleSubInvocation (fs exampleWorld) @ [''Foo.swiftinterface''])"
    by (simp add: example_defs)
  have j: "getBufferForFile (fs exampleWorld) ''cache/Bad.swiftmodule'' = Inr ''junk''"
    by (simp add: example_defs)
  have m: "status (fst (validateSerializedAST ?E2 ''junk'')) = Malformed"
    by (simp add: example_defs)
  have t: "lookupTypeForExtension ?E2 (path_extension ?E2 ''cache/Bad.swiftmodule'') = TY_SwiftModuleFile"
    by (simp add: example_defs suffix_to_prefix)
  have p: "prefix ''cache'' ''cache/Bad.swiftmodule''"
    by simp
  have ne: "''cache'' \<noteq> []"
    by simp
  from j m have "\<exists>buf. getBufferForFile (fs exampleWorld) ''cache/Bad.swiftmodule'' = Inr buf \<and>
          status (fst (validateSerializedAST ?E2 buf)) \<noteq> Valid"
    by (intro exI [of _ "''junk''"]) simp
  with ne t p have bad2: "(\<exists>ec. getBufferForFile (fs exampleWorld) ''cache/Bad.swiftmodule'' = Inl ec) \<or>
      (''cache'' \<noteq> [] \<and>
       lookupTypeForExtension ?E2 (path_extension ?E2 ''cache/Bad.swiftmodule'') = TY_SwiftModuleFile \<and>
       prefix ''cache'' ''cache/Bad.swiftmodule'' \<and>
       (\<exists>buf. getBufferForFile (fs exampleWorld) ''cache/Bad.swiftmodule'' = Inr buf \<and>
          status (fst (validateSerializedAST ?E2 buf)) \<noteq> Valid))"
    by (intro disjI2 conjI)
  from unreadable_dependency_fails_rebuild [OF d1 bad1, of 0 "''cache/Foo-KEY.swiftmodule''"]
  obtain w' where
    e1: "effects w' = effects exampleWorldCompiled" and h1: "hadAnyError (diags w')"
    and all: "\<forall>SubInvocation0 w0.
        buildSwiftModuleFromSwiftInterface_body ?E1 0 SubInvocation0 ''cache'' w0 =
          buildSwiftModuleFromSwiftInterface_serialize ?E1 0 ?inv ''Foo.swiftinterface''
            ''cache/Foo-KEY.swiftmodule'' ''cache'' exampleWorldCompiled \<longrightarrow>
        buildSwiftModuleFromSwiftInterface ?E1 0 SubInvocation0 ''cache'' w0 = (True, w')"
    by (elim exE conjE) (rule that; assumption)
  from all [THEN spec, THEN spec, THEN mp, OF reach] e1 h1
  have r1: "\<exists>w'.
      buildSwiftModuleFromSwiftInterface ?E1 0 exampleSubInvocation ''cache'' exampleWorld = (True, w') \<and>
      effects w' = effects exampleWorldCompiled \<and> hadAnyError (diags w')"
    by (intro exI [of _ w'] conjI)
  from unreadable_dependency_fails_rebuild [OF d2 bad2, of 0 "''cache/Foo-KEY.swiftmodule''"]
  have r2: "\<exists>w'.
      buildSwiftModuleFromSwiftInterface_serialize ?E2 0
        exampleSubInvocation ''Foo.swiftinterface'' ''cache/Foo-KEY.swiftmodule'' ''cache''
        exampleWorld = (True, True, w') \<and>
      effects w' = effects exampleWorld \<and> hadAnyError (diags w')"
    by (elim exE conjE) (intro exI conjI; assumption)
  from d1 g reach r1 d2 j m r2 show ?thesis
    by (intro conjI)
qed

subsection \<open>The rebuild\<close>

lemma extract_frame:
  "extractSwiftInterfaceVersionAndArgs E DiagLoc InPath w = (err, Vers, SubArgs, w1) \<Longrightarrow>
   fs w1 = fs w \<and> effects w1 = effects w \<and> tracker w1 = tracker w"
  by (auto simp: extractSwiftInterfaceVersionAndArgs_def split: sum.splits option.splits prod.splits)

lemma createModuleCacheDirectory_effects:
  "effects (createModuleCacheDirectory E ModuleCachePath w) =
     effects w @ (if ModuleCachePath \<noteq> [] then [create_directory ModuleCachePath] else [])"
  by (simp add: createModuleCacheDirectory_def)

lemma same_major_version:
  "asMajorVersion Vers = asMajorVersion InterfaceFormatVersion \<longleftrightarrow> take 1 Vers = [1]"
  by (simp add: asMajorVersion_def InterfaceFormatVersion_def)

text \<open>
  Claim C6. Let the header of the interface file have been extracted, with the version
  \<open>Vers\<close>. If the major version of \<open>Vers\<close> differs from the major version of
  \<^verbatim>\<open>InterfaceFormatVersion\<close>, the rebuild returns failure after the diagnostic
  \<^verbatim>\<open>unsupported_version_of_parseable_interface\<close>; its only effect is the creation of the
  cache directory, so no argument is parsed and no step of the sub-compilation runs. If the
  major versions agree, the closure goes on with the parsing of the arguments. The major
  versions agree exactly when the first component of \<open>Vers\<close> is 1: the other components
  are not looked at.
\<close>

theorem unsupported_major_version_is_rejected:
  assumes inp: "inv_Inputs SubInvocation = InPath # Inputs"
    and hdr: "extractSwiftInterfaceVersionAndArgs E DiagLoc InPath
                (createModuleCacheDirectory E ModuleCachePath w) = (False, Vers, SubArgs, w1)"
  shows "(asMajorVersion Vers \<noteq> asMajorVersion InterfaceFormatVersion \<longrightarrow>
            buildSwiftModuleFromSwiftInterface E DiagLoc SubInvocation ModuleCachePath w =
              (True, w1\<lparr>diags := diagnose (diags w1) DiagLoc
                               (unsupported_version_of_parseable_interface InPath Vers)\<rparr>) \<and>
            effects w1 =
              effects w @ (if ModuleCachePath \<noteq> [] then [create_directory ModuleCachePath] else [])) \<and>
         (asMajorVersion Vers = asMajorVersion InterfaceFormatVersion \<longrightarrow>
            buildSwiftModuleFromSwiftInterface_body E DiagLoc SubInvocation ModuleCachePath w =
              buildSwiftModuleFromSwiftInterface_configure E DiagLoc SubInvocation InPath
                (inv_ModuleOutputPath SubInvocation) ModuleCachePath SubArgs w1) \<and>
         (asMajorVersion Vers = asMajorVersion InterfaceFormatVersion \<longleftrightarrow> take 1 Vers = [1])"
proof -
  from extract_frame [OF hdr] have "effects w1 =
      effects w @ (if ModuleCachePath \<noteq> [] then [create_directory ModuleCachePath] else [])"
    by (simp add: createModuleCacheDirectory_effects)
  moreover have "asMajorVersion Vers \<noteq> asMajorVersion InterfaceFormatVersion \<Longrightarrow>
      buildSwiftModuleFromSwiftInterface E DiagLoc SubInvocation ModuleCachePath w =
        (True, w1\<lparr>diags := diagnose (diags w1) DiagLoc
                         (unsupported_version_of_parseable_interface InPath Vers)\<rparr>)"
    using inp hdr
    by (simp add: buildSwiftModuleFromSwiftInterface_def buildSwiftModuleFromSwiftInterface_body_def)
  moreover have "asMajorVersion Vers = asMajorVersion InterfaceFormatVersion \<Longrightarrow>
      buildSwiftModuleFromSwiftInterface_body E DiagLoc SubInvocation ModuleCachePath w =
        buildSwiftModuleFromSwiftInterface_configure E DiagLoc SubInvocation InPath
          (inv_ModuleOutputPath SubInvocation) ModuleCachePath SubArgs w1"
    using inp hdr
    by (simp add: buildSwiftModuleFromSwiftInterface_body_def)
  ultimately show ?thesis
    using same_major_version by blast
qed

theorem unsupported_major_version_is_rejected_witness:
  "inv_Inputs (exampleSubInvocationFor ''Bar'' ''Bar.swiftinterface'') = ''Bar.swiftinterface'' # [] \<and>
   extractSwiftInterfaceVersionAndArgs exampleExternals 0 ''Bar.swiftinterface''
     (createModuleCacheDirectory exampleExternals ''cache'' exampleWorld) =
     (False, [2, 0], [''-module-name'', ''Bar''],
      exampleWorld\<lparr>effects := [create_directory ''cache'']\<rparr>) \<and>
   asMajorVersion [2, 0] \<noteq> asMajorVersion InterfaceFormatVersion \<and>
   buildSwiftModuleFromSwiftInterface exampleExternals 0
     (exampleSubInvocationFor ''Bar'' ''Bar.swiftinterface'') ''cache'' exampleWorld =
     (True,
      exampleWorld
        \<lparr>diags := \<lparr>diagnosed =
             [(0, unsupported_version_of_parseable_interface ''Bar.swiftinterface'' [2, 0])],
           hadAnyError = True\<rparr>,
         effects := [create_directory ''cache'']\<rparr>) \<and>
   inv_Inputs (exampleSubInvocationFor ''Baz'' ''Baz.swiftinterface'') = ''Baz.swiftinterface'' # [] \<and>
   extractSwiftInterfaceVersionAndArgs exampleExternals 0 ''Baz.swiftinterface''
     (createModuleCacheDirectory exampleExternals ''cache'' exampleWorld) =
     (False, [1, 5], [''-module-name'', ''Baz''],
      exampleWorld\<lparr>effects := [create_directory ''cache'']\<rparr>) \<and>
   asMajorVersion [1, 5] = asMajorVersion InterfaceFormatVersion \<and>
   buildSwiftModuleFromSwiftInterface_body exampleExternals 0
     (exampleSubInvocationFor ''Baz'' ''Baz.swiftinterface'') ''cache'' exampleWorld =
     buildSwiftModuleFromSwiftInterface_configure exampleExternals 0
       (exampleSubInvocationFor ''Baz'' ''Baz.swiftinterface'') ''Baz.swiftinterface''
       (inv_ModuleOutputPath (exampleSubInvocationFor ''Baz'' ''Baz.swiftinterface'')) ''cache''
       [''-module-name'', ''Baz''] (exampleWorld\<lparr>effects := [create_directory ''cache'']\<rparr>)"
proof -
  have i1: "inv_Inputs (exampleSubInvocationFor ''Bar'' ''Bar.swiftinterface'') =
      ''Bar.swiftinterface'' # []"
    by (simp add: example_defs)
  have h1: "extractSwiftInterfaceVersionAndArgs exampleExternals 0 ''Bar.swiftinterface''
     (createModuleCacheDirectory exampleExternals ''cache'' exampleWorld) =
     (False, [2, 0], [''-module-name'', ''Bar''],
      exampleWorld\<lparr>effects := [create_directory ''cache'']\<rparr>)"
    by (simp add: header_defs diagnoseAll_def createModuleCacheDirectory_def example_defs)
  have v1: "asMajorVersion [2, 0] \<noteq> asMajorVersion InterfaceFormatVersion"
    by (simp add: asMajorVersion_def InterfaceFormatVersion_def)
  have w1: "(exampleWorld\<lparr>effects := [create_directory ''cache'']\<rparr>)
      \<lparr>diags := diagnose (diags (exampleWorld\<lparr>effects := [create_directory ''cache'']\<rparr>)) 0
          (unsupported_version_of_parseable_interface ''Bar.swiftinterface'' [2, 0])\<rparr> =
     exampleWorld
        \<lparr>diags := \<lparr>diagnosed =
             [(0, unsupported_version_of_parseable_interface ''Bar.swiftinterface'' [2, 0])],
           hadAnyError = True\<rparr>,
         effects := [create_directory ''cache'']\<rparr>"
    by (simp add: diagnose_def example_defs)
  have i2: "inv_Inputs (exampleSubInvocationFor ''Baz'' ''Baz.swiftinterface'') =
      ''Baz.swiftinterface'' # []"
    by (simp add: example_defs)
  have h2: "extractSwiftInterfaceVersionAndArgs exampleExternals 0 ''Baz.swiftinterface''
     (createModuleCacheDirectory exampleExternals ''cache'' exampleWorld) =
     (False, [1, 5], [''-module-name'', ''Baz''],
      exampleWorld\<lparr>effects := [create_directory ''cache'']\<rparr>)"
    by (simp add: header_defs diagnoseAll_def createModuleCacheDirectory_def example_defs)
  have v2: "asMajorVersion [1, 5] = asMajorVersion InterfaceFormatVersion"
    by (simp add: asMajorVersion_def InterfaceFormatVersion_def)
  from unsupported_major_version_is_rejected [OF i1 h1, THEN conjunct1, THEN mp, OF v1, THEN conjunct1]
  have r1: "buildSwiftModuleFromSwiftInterface exampleExternals 0
     (exampleSubInvocationFor ''Bar'' ''Bar.swiftinterface'') ''cache'' exampleWorld =
     (True,
      exampleWorld
        \<lparr>diags := \<lparr>diagnosed =
             [(0, unsupported_version_of_parseable_interface ''Bar.swiftinterface'' [2, 0])],
           hadAnyError = True\<rparr>,
         effects := [create_directory ''cache'']\<rparr>)"
    unfolding w1 .
  note r2 = unsupported_major_version_is_rejected [OF i2 h2, THEN conjunct2, THEN conjunct1, THEN mp, OF v2]
  from i1 h1 v1 r1 i2 h2 v2 r2 show ?thesis
    by (intro conjI)
qed

text \<open>
  Claim C7. Let the header have been extracted with a supported major version, and let
  the parsing of its arguments end normally with a module name that differs from the one
  the invocation had before. Then the rebuild returns failure, the last diagnostic is
  \<^verbatim>\<open>serialization_name_mismatch\<close> (its variant for the debugger when the invocation has
  debugger support) with the two names, and the effects are the creation of the cache
  directory and the parsing of the arguments: the sub-instance is not set up, nothing is
  compiled and nothing is serialized.
\<close>

theorem module_name_mismatch_is_rejected:
  assumes inp: "inv_Inputs SubInvocation = InPath # Inputs"
    and hdr: "extractSwiftInterfaceVersionAndArgs E DiagLoc InPath
                (createModuleCacheDirectory E ModuleCachePath w) = (False, Vers, SubArgs, w1)"
    and ver: "asMajorVersion Vers = asMajorVersion InterfaceFormatVersion"
    and args: "parseArgs E SubArgs SubInvocation (fs w1) = (SubInvocation', r)"
    and parsed: "\<not> crashed r" "\<not> failed r"
    and name: "inv_ModuleName SubInvocation' \<noteq> inv_ModuleName SubInvocation"
  shows "\<exists>w2.
     buildSwiftModuleFromSwiftInterface E DiagLoc SubInvocation ModuleCachePath w = (True, w2) \<and>
     effects w2 =
       effects w @ (if ModuleCachePath \<noteq> [] then [create_directory ModuleCachePath] else [])
         @ [CompilerInvocation_parseArgs SubArgs] \<and>
     hadAnyError (diags w2) \<and>
     last (diagnosed (diags w2)) =
       (DiagLoc,
        if inv_DebuggerSupport SubInvocation'
        then serialization_name_mismatch_repl (inv_ModuleName SubInvocation')
               (inv_ModuleName SubInvocation)
        else serialization_name_mismatch (inv_ModuleName SubInvocation')
               (inv_ModuleName SubInvocation))"
proof -
  from extract_frame [OF hdr] have e: "effects w1 =
      effects w @ (if ModuleCachePath \<noteq> [] then [create_directory ModuleCachePath] else [])"
    by (simp add: createModuleCacheDirectory_effects)
  let ?d = "if inv_DebuggerSupport SubInvocation'
        then serialization_name_mismatch_repl (inv_ModuleName SubInvocation')
               (inv_ModuleName SubInvocation)
        else serialization_name_mismatch (inv_ModuleName SubInvocation')
               (inv_ModuleName SubInvocation)"
  let ?w1' = "afterStep w1 DiagLoc (CompilerInvocation_parseArgs SubArgs) r"
  let ?w2 = "?w1'\<lparr>diags := diagnose (diags ?w1') DiagLoc ?d\<rparr>"
  have conf: "buildSwiftModuleFromSwiftInterface_configure E DiagLoc SubInvocation InPath
      (inv_ModuleOutputPath SubInvocation) ModuleCachePath SubArgs w1 = (True, True, ?w2)"
    using args parsed name
    by (simp add: buildSwiftModuleFromSwiftInterface_configure_def Let_def)
  have "buildSwiftModuleFromSwiftInterface E DiagLoc SubInvocation ModuleCachePath w = (True, ?w2)"
    using inp hdr ver conf
    by (simp add: buildSwiftModuleFromSwiftInterface_def buildSwiftModuleFromSwiftInterface_body_def)
  moreover have "effects ?w2 =
       effects w @ (if ModuleCachePath \<noteq> [] then [create_directory ModuleCachePath] else [])
         @ [CompilerInvocation_parseArgs SubArgs]"
    using e by (simp add: afterStep_def)
  moreover have "hadAnyError (diags ?w2)"
    by (simp add: diagnose_def)
  moreover have "last (diagnosed (diags ?w2)) = (DiagLoc, ?d)"
    by (simp add: diagnose_def)
  ultimately show ?thesis
    by blast
qed

theorem module_name_mismatch_is_rejected_witness:
  "inv_Inputs (exampleSubInvocationFor ''Foo'' ''Wrong.swiftinterface'') = ''Wrong.swiftinterface'' # [] \<and>
   extractSwiftInterfaceVersionAndArgs exampleExternals 0 ''Wrong.swiftinterface''
     (createModuleCacheDirectory exampleExternals ''cache'' exampleWorld) =
     (False, [1, 0], [''-module-name'', ''Other''],
      exampleWorld\<lparr>effects := [create_directory ''cache'']\<rparr>) \<and>
   inv_ModuleName (fst (parseArgs exampleExternals [''-module-name'', ''Other'']
      (exampleSubInvocationFor ''Foo'' ''Wrong.swiftinterface'') exampleFS)) = ''Other'' \<and>
   inv_ModuleName (exampleSubInvocationFor ''Foo'' ''Wrong.swiftinterface'') = ''Foo'' \<and>
   (\<exists>w2. buildSwiftModuleFromSwiftInterface exampleExternals 0
       (exampleSubInvocationFor ''Foo'' ''Wrong.swiftinterface'') ''cache'' exampleWorld = (True, w2) \<and>
     effects w2 = [create_directory ''cache'', CompilerInvocation_parseArgs [''-module-name'', ''Other'']] \<and>
     hadAnyError (diags w2) \<and>
     last (diagnosed (diags w2)) = (0, serialization_name_mismatch ''Other'' ''Foo''))"
proof -
  let ?inv = "exampleSubInvocationFor ''Foo'' ''Wrong.swiftinterface''"
  let ?w1 = "exampleWorld\<lparr>effects := [create_directory ''cache'']\<rparr>"
  have i: "inv_Inputs ?inv = ''Wrong.swiftinterface'' # []"
    by (simp add: example_defs)
  have h: "extractSwiftInterfaceVersionAndArgs exampleExternals 0 ''Wrong.swiftinterface''
     (createModuleCacheDirectory exampleExternals ''cache'' exampleWorld) =
     (False, [1, 0], [''-module-name'', ''Other''], ?w1)"
    by (simp add: header_defs diagnoseAll_def createModuleCacheDirectory_def example_defs)
  have v: "asMajorVersion [1, 0] = asMajorVersion InterfaceFormatVersion"
    by (simp add: asMajorVersion_def InterfaceFormatVersion_def)
  have a: "parseArgs exampleExternals [''-module-name'', ''Other''] ?inv (fs ?w1) =
      (?inv\<lparr>inv_ModuleName := ''Other''\<rparr>, exampleStep exampleFS)"
    by (simp add: example_defs)
  have c: "\<not> crashed (exampleStep exampleFS)" and f: "\<not> failed (exampleStep exampleFS)"
    by (simp_all add: exampleStep_def)
  have n: "inv_ModuleName (?inv\<lparr>inv_ModuleName := ''Other''\<rparr>) \<noteq> inv_ModuleName ?inv"
    by (simp add: example_defs)
  have n1: "inv_ModuleName (fst (parseArgs exampleExternals [''-module-name'', ''Other''] ?inv exampleFS))
      = ''Other''"
    by (simp add: example_defs)
  have n2: "inv_ModuleName ?inv = ''Foo''"
    by (simp add: example_defs)
  have d: "inv_DebuggerSupport (?inv\<lparr>inv_ModuleName := ''Other''\<rparr>) = False"
    by (simp add: example_defs)
  have e: "effects exampleWorld = []"
    by (simp add: example_defs)
  from module_name_mismatch_is_rejected [OF i h v a c f n]
  have r: "\<exists>w2. buildSwiftModuleFromSwiftInterface exampleExternals 0 ?inv ''cache'' exampleWorld
        = (True, w2) \<and>
     effects w2 = [create_directory ''cache'', CompilerInvocation_parseArgs [''-module-name'', ''Other'']] \<and>
     hadAnyError (diags w2) \<and>
     last (diagnosed (diags w2)) = (0, serialization_name_mismatch ''Other'' ''Foo'')"
    unfolding d e n2 by simp
  from i h n1 n2 r show ?thesis
    by (intro conjI)
qed

subsection \<open>The loader\<close>

text \<open>
  Claim C9. \<open>ModPath\<close> is the module next to the interface file \<open>InPath\<close>. In the mode
  \<^verbatim>\<open>PreferSerialized\<close>, if the interface file exists and the module can be read and
  \<^verbatim>\<open>validateSerializedAST\<close> reports it valid (its dependencies are not looked at),
  \<^verbatim>\<open>openModuleFiles\<close> returns the error code \<^verbatim>\<open>not_supported\<close>. In every mode the loader can
  be constructed for, if the interface file does not exist, it returns the error code
  \<^verbatim>\<open>no_such_file_or_directory\<close>. In both cases the world is unchanged, whatever the
  parameters are: no output path is computed, no cached module is validated, nothing is
  rebuilt and no buffer is set.
\<close>

theorem openModuleFiles_defers:
  assumes ModPath: "ModPath = path_append E DirName ModuleFilename"
    and InPath: "InPath = path_replace_extension E ModPath (getExtension E TY_SwiftParseableInterfaceFile)"
  shows "(LoadMode = PreferSerialized \<longrightarrow> exists (fs w) InPath \<longrightarrow>
            (\<exists>ModBuf. getBufferForFile (fs w) ModPath = Inr ModBuf \<and>
                status (fst (validateSerializedAST E ModBuf)) = Valid) \<longrightarrow>
            openModuleFiles E Ctx CacheDir LoadMode ModuleID DirName ModuleFilename
                ModuleDocFilename w =
              Returns (\<lparr>ErrorCode = Some not_supported, ModuleBuffer = None,
                         ModuleDocBuffer = None\<rparr>, w)) \<and>
         ((NDEBUG E \<or> LoadMode \<noteq> OnlySerialized) \<longrightarrow> \<not> exists (fs w) InPath \<longrightarrow>
            openModuleFiles E Ctx CacheDir LoadMode ModuleID DirName ModuleFilename
                ModuleDocFilename w =
              Returns (\<lparr>ErrorCode = Some no_such_file_or_directory, ModuleBuffer = None,
                         ModuleDocBuffer = None\<rparr>, w))"
  using assms
  by (auto simp: openModuleFiles_def serializedASTLooksValidOrCannotBeRead_def Let_def)

theorem openModuleFiles_defers_witness:
  "''sdk/B.swiftmodule'' = path_append exampleExternals ''sdk'' ''B.swiftmodule'' \<and>
   ''sdk/B.swiftinterface'' = path_replace_extension exampleExternals ''sdk/B.swiftmodule''
      (getExtension exampleExternals TY_SwiftParseableInterfaceFile) \<and>
   exists (fs exampleWorld) ''sdk/B.swiftinterface'' \<and>
   getBufferForFile (fs exampleWorld) ''sdk/B.swiftmodule'' = Inr ''modB'' \<and>
   status (fst (validateSerializedAST exampleExternals ''modB'')) = Valid \<and>
   openModuleFiles exampleExternals exampleCtx ''cache'' PreferSerialized (''B'', 0) ''sdk'' ''B.swiftmodule''
       ''B.swiftdoc'' exampleWorld =
     Returns (\<lparr>ErrorCode = Some not_supported, ModuleBuffer = None, ModuleDocBuffer = None\<rparr>,
              exampleWorld) \<and>
   ''sdk/N.swiftmodule'' = path_append exampleExternals ''sdk'' ''N.swiftmodule'' \<and>
   ''sdk/N.swiftinterface'' = path_replace_extension exampleExternals ''sdk/N.swiftmodule''
      (getExtension exampleExternals TY_SwiftParseableInterfaceFile) \<and>
   \<not> exists (fs exampleWorld) ''sdk/N.swiftinterface'' \<and>
   openModuleFiles exampleExternals exampleCtx ''cache'' PreferParseable (''N'', 0) ''sdk'' ''N.swiftmodule''
       ''N.swiftdoc'' exampleWorld =
     Returns (\<lparr>ErrorCode = Some no_such_file_or_directory, ModuleBuffer = None,
                ModuleDocBuffer = None\<rparr>, exampleWorld)"
proof -
  have m1: "''sdk/B.swiftmodule'' = path_append exampleExternals ''sdk'' ''B.swiftmodule''"
    by (simp add: example_defs)
  have i1: "''sdk/B.swiftinterface'' = path_replace_extension exampleExternals ''sdk/B.swiftmodule''
      (getExtension exampleExternals TY_SwiftParseableInterfaceFile)"
    by (simp add: example_defs)
  have e1: "exists (fs exampleWorld) ''sdk/B.swiftinterface''"
    by (simp add: example_defs)
  have b1: "getBufferForFile (fs exampleWorld) ''sdk/B.swiftmodule'' = Inr ''modB''"
    by (simp add: example_defs)
  have v1: "status (fst (validateSerializedAST exampleExternals ''modB'')) = Valid"
    by (simp add: example_defs)
  from b1 v1 have x1: "\<exists>ModBuf. getBufferForFile (fs exampleWorld) ''sdk/B.swiftmodule'' = Inr ModBuf \<and>
      status (fst (validateSerializedAST exampleExternals ModBuf)) = Valid"
    by (intro exI [of _ "''modB''"] conjI)
  note r1 = openModuleFiles_defers [OF m1 i1, where LoadMode = PreferSerialized and w = exampleWorld,
      THEN conjunct1, THEN mp, THEN mp, THEN mp, OF refl e1 x1]
  have m2: "''sdk/N.swiftmodule'' = path_append exampleExternals ''sdk'' ''N.swiftmodule''"
    by (simp add: example_defs)
  have i2: "''sdk/N.swiftinterface'' = path_replace_extension exampleExternals ''sdk/N.swiftmodule''
      (getExtension exampleExternals TY_SwiftParseableInterfaceFile)"
    by (simp add: example_defs)
  have e2: "\<not> exists (fs exampleWorld) ''sdk/N.swiftinterface''"
    by (simp add: example_defs)
  have l2: "NDEBUG exampleExternals \<or> PreferParseable \<noteq> OnlySerialized"
    by simp
  note r2 = openModuleFiles_defers [OF m2 i2, where LoadMode = PreferParseable and w = exampleWorld,
      THEN conjunct2, THEN mp, THEN mp, OF l2 e2]
  from m1 i1 e1 b1 v1 r1 m2 i2 e2 r2 show ?thesis
    by (intro conjI)
qed

text \<open>
  Claim C10. In the mode \<^verbatim>\<open>PreferSerialized\<close>, if the interface file exists and reading
  the module next to it fails with an error other than \<^verbatim>\<open>no_such_file_or_directory\<close>,
  \<^verbatim>\<open>openModuleFiles\<close> returns the error code \<^verbatim>\<open>not_supported\<close> and leaves the world
  unchanged: nothing is validated or rebuilt from the interface.
\<close>

theorem openModuleFiles_defers_on_unreadable_module:
  assumes ModPath: "ModPath = path_append E DirName ModuleFilename"
    and InPath: "InPath = path_replace_extension E ModPath (getExtension E TY_SwiftParseableInterfaceFile)"
    and mode: "LoadMode = PreferSerialized"
    and iface: "exists (fs w) InPath"
    and unreadable: "getBufferForFile (fs w) ModPath = Inl ec"
    and ec: "ec \<noteq> no_such_file_or_directory"
  shows "openModuleFiles E Ctx CacheDir LoadMode ModuleID DirName ModuleFilename ModuleDocFilename w =
           Returns (\<lparr>ErrorCode = Some not_supported, ModuleBuffer = None,
                      ModuleDocBuffer = None\<rparr>, w)"
  using assms
  by (simp add: openModuleFiles_def serializedASTLooksValidOrCannotBeRead_def Let_def)

theorem openModuleFiles_defers_on_unreadable_module_witness:
  "''sdk/L.swiftmodule'' = path_append exampleExternals ''sdk'' ''L.swiftmodule'' \<and>
   ''sdk/L.swiftinterface'' = path_replace_extension exampleExternals ''sdk/L.swiftmodule''
      (getExtension exampleExternals TY_SwiftParseableInterfaceFile) \<and>
   exists (fs exampleWorld) ''sdk/L.swiftinterface'' \<and>
   getBufferForFile (fs exampleWorld) ''sdk/L.swiftmodule'' = Inl permission_denied \<and>
   permission_denied \<noteq> no_such_file_or_directory \<and>
   openModuleFiles exampleExternals exampleCtx ''cache'' PreferSerialized (''L'', 0) ''sdk'' ''L.swiftmodule''
       ''L.swiftdoc'' exampleWorld =
     Returns (\<lparr>ErrorCode = Some not_supported, ModuleBuffer = None, ModuleDocBuffer = None\<rparr>,
              exampleWorld)"
proof -
  have m: "''sdk/L.swiftmodule'' = path_append exampleExternals ''sdk'' ''L.swiftmodule''"
    by (simp add: example_defs)
  have i: "''sdk/L.swiftinterface'' = path_replace_extension exampleExternals ''sdk/L.swiftmodule''
      (getExtension exampleExternals TY_SwiftParseableInterfaceFile)"
    by (simp add: example_defs)
  have e: "exists (fs exampleWorld) ''sdk/L.swiftinterface''"
    by (simp add: example_defs)
  have b: "getBufferForFile (fs exampleWorld) ''sdk/L.swiftmodule'' = Inl permission_denied"
    by (simp add: example_defs)
  have c: "permission_denied \<noteq> no_such_file_or_directory"
    by simp
  note r = openModuleFiles_defers_on_unreadable_module [OF m i refl e b c]
  from m i e b c r show ?thesis
    by (intro conjI)
qed

end
